theory Spec2Isabelle
  imports Complex_Main "HOL-Library.Multiset" "HOL-Library.Log_Nat"
begin

section \<open>Learning-history endpoint (POST /api/user-words)\<close>

text \<open>
  The route handler reads the bearer credential, the JSON body and the stored record of the
  key (user, word), and either updates that record or creates one. The database is a map
  from the key to the record; the clock, the token verifier and the column defaults of the
  schema (which are not part of the sources at hand) are parameters. A failure of the
  database or of the parsing of the body, which the handler answers with status 500, is not
  part of the model.
\<close>

record userWord =
  uw_userId :: int
  uw_wordId :: int
  uw_status :: string
  correctCount :: int
  mistakeCount :: int
  quizCorrectCount :: int
  quizMistakeCount :: int
  flashcardLearnedCount :: int
  lastStudiedAt :: int

text \<open>The body of the request after destructuring. A field that is absent is \<open>None\<close>.\<close>

record postBody =
  b_wordId :: "int option"
  b_isCorrect :: "bool option"
  b_status :: "string option"
  b_studyType :: "string option"
  b_isLearned :: "bool option"

record postRequest =
  authorization :: "string option"
  body :: postBody

text \<open>The data handed to the update and create calls: only the fields that were assigned.\<close>

record writeData =
  d_lastStudiedAt :: int
  d_status :: string
  d_correctCount :: "int option"
  d_mistakeCount :: "int option"
  d_quizCorrectCount :: "int option"
  d_quizMistakeCount :: "int option"
  d_flashcardLearnedCount :: "int option"

datatype response = ErrorResponse nat | UserWordResponse userWord

type_synonym userWordTable = "int \<times> int \<rightharpoonup> userWord"

definition status_learning :: string where
  \<comment> \<open>stands for the status literal of the source that reads "in the course of learning"\<close>
  "status_learning = ''gakushuu-chuu''"

definition truthy_bool :: "bool option \<Rightarrow> bool" where
  "truthy_bool b = (b = Some True)"

definition truthy_string :: "string option \<Rightarrow> bool" where
  "truthy_string s = (case s of None \<Rightarrow> False | Some t \<Rightarrow> t \<noteq> [])"

definition truthy_int :: "int option \<Rightarrow> bool" where
  "truthy_int n = (case n of None \<Rightarrow> False | Some k \<Rightarrow> k \<noteq> 0)"

definition or_string :: "string option \<Rightarrow> string \<Rightarrow> string" where
  \<comment> \<open>\<open>status || fallback\<close>\<close>
  "or_string s fallback = (if truthy_string s then the s else fallback)"

definition startsWith_Bearer :: "string \<Rightarrow> bool" where
  "startsWith_Bearer h = (take 7 h = ''Bearer '')"

definition emptyData :: "int \<Rightarrow> string \<Rightarrow> writeData" where
  "emptyData now st =
     \<lparr>d_lastStudiedAt = now, d_status = st, d_correctCount = None, d_mistakeCount = None,
      d_quizCorrectCount = None, d_quizMistakeCount = None, d_flashcardLearnedCount = None\<rparr>"

definition updateData :: "int \<Rightarrow> postBody \<Rightarrow> userWord \<Rightarrow> writeData" where
  "updateData now b existing =
     (let d = emptyData now (or_string (b_status b) (uw_status existing));
          isCorrect = truthy_bool (b_isCorrect b)
      in if b_studyType b = Some ''quiz'' then
           d\<lparr>d_quizCorrectCount :=
                Some (if isCorrect then quizCorrectCount existing + 1 else quizCorrectCount existing),
             d_quizMistakeCount :=
                Some (if \<not> isCorrect then quizMistakeCount existing + 1 else quizMistakeCount existing),
             d_correctCount :=
                Some (if isCorrect then correctCount existing + 1 else correctCount existing),
             d_mistakeCount :=
                Some (if \<not> isCorrect then mistakeCount existing + 1 else mistakeCount existing)\<rparr>
         else if b_studyType b = Some ''flashcard'' then
           (if b_isLearned b = Some False then
              (let d1 = d\<lparr>d_flashcardLearnedCount := Some 0\<rparr>
               in if correctCount existing > 0
                  then d1\<lparr>d_correctCount := Some (max 0 (correctCount existing - 1))\<rparr>
                  else d1)
            else
              d\<lparr>d_flashcardLearnedCount := Some (flashcardLearnedCount existing + 1),
                d_correctCount := Some (correctCount existing + 1)\<rparr>)
         else
           d\<lparr>d_correctCount :=
                Some (if isCorrect then correctCount existing + 1 else correctCount existing),
             d_mistakeCount :=
                Some (if \<not> isCorrect then mistakeCount existing + 1 else mistakeCount existing)\<rparr>)"

definition createData :: "int \<Rightarrow> postBody \<Rightarrow> writeData" where
  "createData now b =
     (let d = emptyData now (or_string (b_status b) status_learning);
          isCorrect = truthy_bool (b_isCorrect b)
      in if b_studyType b = Some ''quiz'' then
           d\<lparr>d_quizCorrectCount := Some (if isCorrect then 1 else 0),
             d_quizMistakeCount := Some (if \<not> isCorrect then 1 else 0),
             d_correctCount := Some (if isCorrect then 1 else 0),
             d_mistakeCount := Some (if \<not> isCorrect then 1 else 0)\<rparr>
         else if b_studyType b = Some ''flashcard'' then
           d\<lparr>d_flashcardLearnedCount := Some 1,
             d_correctCount := Some 1,
             d_mistakeCount := Some 0\<rparr>
         else
           d\<lparr>d_correctCount := Some (if isCorrect then 1 else 0),
             d_mistakeCount := Some (if \<not> isCorrect then 1 else 0)\<rparr>)"

definition or_field :: "int option \<Rightarrow> int \<Rightarrow> int" where
  "or_field v old = (case v of None \<Rightarrow> old | Some x \<Rightarrow> x)"

definition applyData :: "writeData \<Rightarrow> userWord \<Rightarrow> userWord" where
  \<comment> \<open>a write touches the assigned columns and keeps the others of the given row\<close>
  "applyData d row =
     row\<lparr>lastStudiedAt := d_lastStudiedAt d,
         uw_status := d_status d,
         correctCount := or_field (d_correctCount d) (correctCount row),
         mistakeCount := or_field (d_mistakeCount d) (mistakeCount row),
         quizCorrectCount := or_field (d_quizCorrectCount d) (quizCorrectCount row),
         quizMistakeCount := or_field (d_quizMistakeCount d) (quizMistakeCount row),
         flashcardLearnedCount := or_field (d_flashcardLearnedCount d) (flashcardLearnedCount row)\<rparr>"

definition POST ::
  "(string \<Rightarrow> int option) \<Rightarrow> userWord \<Rightarrow> int \<Rightarrow> postRequest \<Rightarrow> userWordTable
     \<Rightarrow> response \<times> userWordTable" where
  \<comment> \<open>\<open>verifyToken\<close> yields the user's id; \<open>dflt\<close> holds the column defaults of a new row\<close>
  "POST verifyToken dflt now req db =
     (case authorization req of
        None \<Rightarrow> (ErrorResponse 401, db)
      | Some authHeader \<Rightarrow>
          if authHeader = [] \<or> \<not> startsWith_Bearer authHeader then (ErrorResponse 401, db)
          else
            (case verifyToken (drop 7 authHeader) of
               None \<Rightarrow> (ErrorResponse 401, db)
             | Some userId \<Rightarrow>
                 if \<not> truthy_int (b_wordId (body req)) then (ErrorResponse 400, db)
                 else
                   (let wordId = the (b_wordId (body req)) in
                    case db (userId, wordId) of
                      Some existing \<Rightarrow>
                        (let updated = applyData (updateData now (body req) existing) existing
                         in (UserWordResponse updated, db((userId, wordId) \<mapsto> updated)))
                    | None \<Rightarrow>
                        (let created =
                               applyData (createData now (body req))
                                 (dflt\<lparr>uw_userId := userId, uw_wordId := wordId\<rparr>)
                         in (UserWordResponse created, db((userId, wordId) \<mapsto> created))))))"

section \<open>Flashcard progress (markAsStudiedForWord)\<close>

record Progress =
  p_wordId :: int
  lastStudied :: int
  studyCount :: int
  isLearned :: bool

definition markAsStudiedForWord :: "int \<Rightarrow> int \<Rightarrow> (int \<rightharpoonup> Progress) \<Rightarrow> (int \<rightharpoonup> Progress)" where
  \<comment> \<open>\<open>now\<close> is the reading of the clock during the call\<close>
  "markAsStudiedForWord now wordId progress =
     (let existing =
            (case progress wordId of
               Some e \<Rightarrow> e
             | None \<Rightarrow> \<lparr>p_wordId = wordId, lastStudied = now, studyCount = 0, isLearned = False\<rparr>);
          newIsLearned = (\<not> isLearned existing)
      in progress(wordId \<mapsto>
           existing\<lparr>lastStudied := now,
                    studyCount := (if newIsLearned then studyCount existing + 1 else studyCount existing),
                    isLearned := newIsLearned\<rparr>))"

section \<open>JavaScript numbers\<close>

text \<open>
  The percentage and the time spent are computed on JavaScript numbers, which are IEEE 754
  doubles. A finite double is a rational; an arithmetic operation returns the double nearest
  to the exact result, ties going to the even significand. \<open>toDouble\<close> is that rounding for
  results below the overflow threshold (the values met here are at most 10000): 53
  significant bits in the binade of the value, and the fixed spacing of the subnormal
  numbers (2 to the power -1074) below the smallest normal number.
\<close>

definition pow2 :: "int \<Rightarrow> rat" where
  "pow2 e = (if 0 \<le> e then 2 ^ nat e else 1 / 2 ^ nat (- e))"

definition binade :: "rat \<Rightarrow> int" where
  \<comment> \<open>for \<open>q > 0\<close>, the exponent \<open>e\<close> for which \<open>q\<close> lies from \<open>pow2 e\<close> up to, but not at,
      \<open>pow2 (e + 1)\<close>: the difference of the bit lengths of numerator and denominator, or one
      less\<close>
  "binade q =
     (let (a, b) = quotient_of q;
          e0 = bitlen a - bitlen b
      in if pow2 e0 \<le> q then e0 else e0 - 1)"

definition roundTiesToEven :: "rat \<Rightarrow> int" where
  "roundTiesToEven x =
     (let f = \<lfloor>x\<rfloor>; r = x - of_int f
      in if r < 1 / 2 then f
         else if 1 / 2 < r then f + 1
         else if even f then f else f + 1)"

definition toDouble :: "rat \<Rightarrow> rat" where
  "toDouble q =
     (if q = 0 then 0
      else let ulp = pow2 (max (binade \<bar>q\<bar>) (- 1022) - 52)
           in sgn q * of_int (roundTiesToEven (\<bar>q\<bar> / ulp)) * ulp)"

definition js_div :: "rat \<Rightarrow> rat \<Rightarrow> rat" where
  \<comment> \<open>\<open>x / y\<close> for a divisor that is not zero\<close>
  "js_div x y = toDouble (x / y)"

definition js_mul :: "rat \<Rightarrow> rat \<Rightarrow> rat" where
  "js_mul x y = toDouble (x * y)"

definition Math_round :: "rat \<Rightarrow> int" where
  \<comment> \<open>the nearest integer, a tie going up\<close>
  "Math_round x = \<lfloor>x + 1 / 2\<rfloor>"

section \<open>Quiz: the generation of the four options\<close>

record Word =
  w_id :: int
  english :: string
  japanese :: string
  level :: string

datatype quizMode = EnToJa | JaToEn

text \<open>
  \<open>shuffleArray\<close> walks \<open>i\<close> from the last index down to 1 and swaps position \<open>i\<close> with a
  random position \<open>j\<close> of \<open>0..i\<close>. The random source is an oracle: \<open>rnd i\<close> stands for the
  draw \<open>Math.floor(Math.random() * (i + 1))\<close> made at index \<open>i\<close>, reduced modulo \<open>i + 1\<close> so
  that every oracle yields a draw the source can make, and every such draw is yielded by
  some oracle.
\<close>

definition swap :: "'a list \<Rightarrow> nat \<Rightarrow> nat \<Rightarrow> 'a list" where
  \<comment> \<open>\<open>[copy[i], copy[j]] = [copy[j], copy[i]]\<close>; the loop calls it with \<open>j \<le> i < length copy\<close>\<close>
  "swap copy i j = copy[i := copy ! j, j := copy ! i]"

fun shuffleLoop :: "(nat \<Rightarrow> nat) \<Rightarrow> nat \<Rightarrow> 'a list \<Rightarrow> 'a list" where
  "shuffleLoop rnd 0 copy = copy"
| "shuffleLoop rnd (Suc i) copy =
     (let j = rnd (Suc i) mod (Suc i + 1) in shuffleLoop rnd i (swap copy (Suc i) j))"

definition shuffleArray :: "(nat \<Rightarrow> nat) \<Rightarrow> 'a list \<Rightarrow> 'a list" where
  "shuffleArray rnd array = shuffleLoop rnd (length array - 1) array"

text \<open>
  A JavaScript \<open>Set\<close> of strings keeps its members in the order of their first insertion;
  it is a list without repetition, and \<open>Array.from\<close> reads that list.
\<close>

definition setAdd :: "string list \<Rightarrow> string \<Rightarrow> string list" where
  "setAdd s x = (if x \<in> set s then s else s @ [x])"

fun drawWrong :: "(Word \<Rightarrow> string) \<Rightarrow> string list \<Rightarrow> Word list \<Rightarrow> string list" where
  \<comment> \<open>the first loop: stop at three members, otherwise add the word's answer\<close>
  "drawWrong field uniqueWrong [] = uniqueWrong"
| "drawWrong field uniqueWrong (word # rest) =
     (if 3 \<le> length uniqueWrong then uniqueWrong
      else drawWrong field (setAdd uniqueWrong (field word)) rest)"

fun drawFallback ::
  "(Word \<Rightarrow> string) \<Rightarrow> string option \<Rightarrow> string list \<Rightarrow> Word list \<Rightarrow> string list" where
  \<comment> \<open>the fallback loop: as the first, but a word whose answer is \<open>prevAnswer\<close> is skipped\<close>
  "drawFallback field prevAnswer uniqueWrong [] = uniqueWrong"
| "drawFallback field prevAnswer uniqueWrong (word # rest) =
     (if 3 \<le> length uniqueWrong then uniqueWrong
      else if Some (field word) = prevAnswer then drawFallback field prevAnswer uniqueWrong rest
      else drawFallback field prevAnswer (setAdd uniqueWrong (field word)) rest)"

definition candidatePool ::
  "(Word \<Rightarrow> string) \<Rightarrow> Word \<Rightarrow> Word list \<Rightarrow> string option \<Rightarrow> Word list" where
  "candidatePool field question allWords prevAnswer =
     filter (\<lambda>w. w_id w \<noteq> w_id question
                 \<and> (if truthy_string prevAnswer then Some (field w) \<noteq> prevAnswer else True)) allWords"

definition fallbackPool :: "Word \<Rightarrow> Word list \<Rightarrow> Word list" where
  "fallbackPool question allWords = filter (\<lambda>w. w_id w \<noteq> w_id question) allWords"

definition optionsFor ::
  "(Word \<Rightarrow> string) \<Rightarrow> (nat \<Rightarrow> nat) \<Rightarrow> (nat \<Rightarrow> nat) \<Rightarrow> (nat \<Rightarrow> nat)
     \<Rightarrow> Word \<Rightarrow> Word list \<Rightarrow> string option \<Rightarrow> string list" where
  \<comment> \<open>one branch of \<open>generateOptions\<close>; the two branches differ in the field only\<close>
  "optionsFor field rnd1 rnd2 rnd3 question allWords prevAnswer =
     (let correctAnswer = field question;
          uniqueWrong =
            drawWrong field [] (shuffleArray rnd1 (candidatePool field question allWords prevAnswer));
          uniqueWrong' =
            (if length uniqueWrong < 3
             then drawFallback field prevAnswer uniqueWrong
                    (shuffleArray rnd2 (fallbackPool question allWords))
             else uniqueWrong)
      in shuffleArray rnd3 (correctAnswer # take 3 uniqueWrong'))"

definition generateOptions ::
  "quizMode \<Rightarrow> (nat \<Rightarrow> nat) \<Rightarrow> (nat \<Rightarrow> nat) \<Rightarrow> (nat \<Rightarrow> nat)
     \<Rightarrow> Word \<Rightarrow> Word list \<Rightarrow> string option \<Rightarrow> string list" where
  \<comment> \<open>the list handed to \<open>setOptions\<close>; the three oracles serve the three shuffles\<close>
  "generateOptions mode rnd1 rnd2 rnd3 question allWords prevAnswer =
     (if mode = EnToJa then optionsFor japanese rnd1 rnd2 rnd3 question allWords prevAnswer
      else optionsFor english rnd1 rnd2 rnd3 question allWords prevAnswer)"

definition answerField :: "quizMode \<Rightarrow> Word \<Rightarrow> string" where
  \<comment> \<open>\<open>quizMode === 'en-to-ja' ? w.japanese : w.english\<close>\<close>
  "answerField mode w = (if mode = EnToJa then japanese w else english w)"

section \<open>Quiz: the state of the page and its handlers\<close>

text \<open>
  The component state is a record of the \<open>useState\<close> cells; a handler maps the state of the
  render it belongs to to the state after its updates. Calls that leave the component (the
  request of \<open>saveUserWord\<close>, a \<open>setTimeout\<close>) are appended to the log \<open>effects\<close>. The stored
  token, the oracles of the shuffles and the answer clicked are arguments.
\<close>

record QuizResult =
  r_wordId :: int
  r_english :: string
  r_japanese :: string
  userAnswer :: string
  correctAnswer :: string
  isCorrect :: bool
  timeSpent :: int

datatype effect = Fetch postRequest | MoveToNextQuestionAfter nat

record searchParams =
  sp_mode :: quizMode
  sp_level :: string
  sp_count :: int

record quizState =
  selectedLevel :: string
  quizMode :: quizMode
  words :: "Word list"
  currentIndex :: int
  currentQuestion :: "Word option"
  options :: "string list"
  selectedAnswer :: "string option"
  isAnswered :: bool
  results :: "QuizResult list"
  isTimeUp :: bool
  quizStarted :: bool
  quizFinished :: bool
  hasTimeLimit :: bool
  questionCount :: int
  timeLeftMs :: int
  previousCorrectAnswer :: "string option"
  pendingQuizStartRef :: bool
  fetchesInFlight :: nat
  effects :: "effect list"

datatype jsError = TypeError

definition timeLimitMs :: int where
  "timeLimitMs = 10000"

definition status_mastered :: string where
  \<comment> \<open>stands for the status literal of the source that reads "mastered"\<close>
  "status_mastered = ''shuutoku-zumi''"

definition initialQuizState :: "searchParams \<Rightarrow> quizState" where
  "initialQuizState sp =
     \<lparr>selectedLevel = sp_level sp, quizMode = sp_mode sp, words = [], currentIndex = 0,
      currentQuestion = None, options = [], selectedAnswer = None, isAnswered = False,
      results = [], isTimeUp = False, quizStarted = False, quizFinished = False,
      hasTimeLimit = True, questionCount = sp_count sp, timeLeftMs = 10000,
      previousCorrectAnswer = None, pendingQuizStartRef = False, fetchesInFlight = 0,
      effects = []\<rparr>"

definition index_js :: "'a list \<Rightarrow> int \<Rightarrow> 'a option" where
  \<comment> \<open>\<open>array[i]\<close>: \<open>undefined\<close> outside the array\<close>
  "index_js xs i = (if 0 \<le> i \<and> i < int (length xs) then Some (xs ! nat i) else None)"

definition fetchEffect :: "quizState \<Rightarrow> quizState" where
  \<comment> \<open>the start of the fetch effect: no request once the quiz has started, else one more
      request in flight\<close>
  "fetchEffect s =
     (if quizStarted s then s else s\<lparr>fetchesInFlight := fetchesInFlight s + 1\<rparr>)"

definition wordsFetched ::
  "(nat \<Rightarrow> nat) \<Rightarrow> (nat \<Rightarrow> nat) \<Rightarrow> (nat \<Rightarrow> nat) \<Rightarrow> Word list \<Rightarrow> quizState \<Rightarrow> quizState" where
  \<comment> \<open>the rest of the fetch effect, run when the response holding \<open>data_words\<close> arrives: it
      tests nothing but the response, whatever the quiz has done since the request; an empty
      response leaves the page. The options are made here for the current mode, in the source
      for the mode of the render that started the effect; no property below reads the options
      made here\<close>
  "wordsFetched rnd1 rnd2 rnd3 data_words s =
     (if data_words \<noteq> [] then
        (let s1 = s\<lparr>words := data_words, currentQuestion := Some (hd data_words),
                     previousCorrectAnswer := None,
                     options := generateOptions (quizMode s) rnd1 rnd2 rnd3 (hd data_words)
                                  data_words None\<rparr>
         in if pendingQuizStartRef s1
            then s1\<lparr>pendingQuizStartRef := False, quizStarted := True, timeLeftMs := timeLimitMs\<rparr>
            else s1)
      else s)"

definition saveUserWord :: "string option \<Rightarrow> int \<Rightarrow> bool \<Rightarrow> effect list" where
  \<comment> \<open>nothing is sent for a guest; the body carries no \<open>studyType\<close>\<close>
  "saveUserWord token wordId correct =
     (if \<not> truthy_string token then []
      else [Fetch \<lparr>authorization = Some (''Bearer '' @ the token),
                   body = \<lparr>b_wordId = Some wordId, b_isCorrect = Some correct,
                            b_status = Some (if correct then status_mastered else status_learning),
                            b_studyType = None, b_isLearned = None\<rparr>\<rparr>])"

definition spentSeconds :: "quizState \<Rightarrow> int" where
  \<comment> \<open>\<open>Math.round((timeLimitMs - timeLeftMs) / 1000)\<close>\<close>
  "spentSeconds s = Math_round (js_div (of_int (timeLimitMs - timeLeftMs s)) 1000)"

definition handleTimeUp :: "string option \<Rightarrow> quizState \<Rightarrow> quizState" where
  "handleTimeUp token s =
     (case currentQuestion s of
        None \<Rightarrow> s
      | Some q \<Rightarrow>
          (let result = \<lparr>r_wordId = w_id q, r_english = english q, r_japanese = japanese q,
                         userAnswer = [], correctAnswer = answerField (quizMode s) q,
                         isCorrect = False, timeSpent = spentSeconds s\<rparr>
           in s\<lparr>results := results s @ [result],
                isAnswered := True,
                effects := effects s @ saveUserWord token (w_id q) False
                             @ [MoveToNextQuestionAfter 2000]\<rparr>))"

definition handleAnswerSelect :: "string option \<Rightarrow> string \<Rightarrow> quizState \<Rightarrow> quizState" where
  "handleAnswerSelect token answer s =
     (if isAnswered s \<or> isTimeUp s then s
      else
        (let s1 = s\<lparr>selectedAnswer := Some answer, isAnswered := True\<rparr>
         in case currentQuestion s of
              None \<Rightarrow> s1
            | Some q \<Rightarrow>
                (let correct = (answer = answerField (quizMode s) q);
                     result = \<lparr>r_wordId = w_id q, r_english = english q, r_japanese = japanese q,
                               userAnswer = answer, correctAnswer = answerField (quizMode s) q,
                               isCorrect = correct, timeSpent = spentSeconds s\<rparr>
                 in s1\<lparr>results := results s @ [result],
                       effects := effects s @ saveUserWord token (w_id q) correct
                                    @ [MoveToNextQuestionAfter 2000]\<rparr>)))"

definition intervalInstalled :: "quizState \<Rightarrow> bool" where
  \<comment> \<open>the timer effect keeps a 100 ms interval alive exactly in these states\<close>
  "intervalInstalled s =
     (\<not> (\<not> quizStarted s \<or> quizFinished s \<or> isAnswered s \<or> \<not> hasTimeLimit s) \<and> 0 < timeLeftMs s)"

definition intervalTick :: "quizState \<Rightarrow> quizState" where
  \<comment> \<open>the callback of the interval\<close>
  "intervalTick s =
     (let next = max 0 (timeLeftMs s - 100)
      in (if next = 0 then s\<lparr>isTimeUp := True\<rparr> else s)\<lparr>timeLeftMs := next\<rparr>)"

definition timerEffect :: "string option \<Rightarrow> quizState \<Rightarrow> quizState" where
  \<comment> \<open>the body of the timer effect; with time left it only installs the interval\<close>
  "timerEffect token s =
     (if \<not> quizStarted s \<or> quizFinished s \<or> isAnswered s \<or> \<not> hasTimeLimit s then s
      else if 0 < timeLeftMs s then s
      else handleTimeUp token s)"

definition moveToNextQuestion ::
  "(nat \<Rightarrow> nat) \<Rightarrow> (nat \<Rightarrow> nat) \<Rightarrow> (nat \<Rightarrow> nat) \<Rightarrow> quizState \<Rightarrow> jsError + quizState" where
  \<comment> \<open>reading a field of \<open>words[nextIndex]\<close> throws when that element is \<open>undefined\<close>\<close>
  "moveToNextQuestion rnd1 rnd2 rnd3 s =
     (let nextIndex = currentIndex s + 1
      in if int (length (words s)) \<le> nextIndex then Inr (s\<lparr>quizFinished := True\<rparr>)
         else
           (let prevCorrect =
                  (case currentQuestion s of
                     Some q \<Rightarrow> Some (answerField (quizMode s) q)
                   | None \<Rightarrow> None)
            in case index_js (words s) nextIndex of
                 None \<Rightarrow> Inl TypeError
               | Some w \<Rightarrow>
                   Inr (s\<lparr>previousCorrectAnswer := prevCorrect,
                          currentIndex := nextIndex,
                          currentQuestion := Some w,
                          options := generateOptions (quizMode s) rnd1 rnd2 rnd3 w (words s)
                                       prevCorrect,
                          selectedAnswer := None,
                          isAnswered := False,
                          isTimeUp := False,
                          hasTimeLimit := True,
                          timeLeftMs := timeLimitMs\<rparr>)))"

definition startQuiz ::
  "searchParams \<Rightarrow> (nat \<Rightarrow> nat) \<Rightarrow> (nat \<Rightarrow> nat) \<Rightarrow> (nat \<Rightarrow> nat) \<Rightarrow> quizState \<Rightarrow> quizState" where
  "startQuiz sp rnd1 rnd2 rnd3 s =
     (let s1 = (if sp_mode sp \<noteq> quizMode s then s\<lparr>quizMode := sp_mode sp\<rparr> else s);
          s2 = (if sp_level sp \<noteq> selectedLevel s then s1\<lparr>selectedLevel := sp_level sp\<rparr> else s1);
          s3 = (if sp_count sp \<noteq> questionCount s then s2\<lparr>questionCount := sp_count sp\<rparr> else s2);
          needsUpdate = (sp_mode sp \<noteq> quizMode s \<or> sp_level sp \<noteq> selectedLevel s
                          \<or> sp_count sp \<noteq> questionCount s)
      in if needsUpdate then s3\<lparr>pendingQuizStartRef := True\<rparr>
         else
           (case currentQuestion s of
              Some q \<Rightarrow>
                if words s \<noteq> [] then
                  s\<lparr>quizStarted := True, timeLeftMs := timeLimitMs,
                    options := generateOptions (quizMode s) rnd1 rnd2 rnd3 q (words s) None\<rparr>
                else s
            | None \<Rightarrow> s))"

definition paramsEffects :: "searchParams \<Rightarrow> quizState \<Rightarrow> quizState" where
  \<comment> \<open>the two effects that copy the query parameters into the state\<close>
  "paramsEffects sp s =
     (let s1 = (if sp_mode sp \<noteq> quizMode s then s\<lparr>quizMode := sp_mode sp\<rparr> else s);
          s2 = (if sp_level sp \<noteq> selectedLevel s then s1\<lparr>selectedLevel := sp_level sp\<rparr> else s1)
      in if sp_count sp \<noteq> questionCount s then s2\<lparr>questionCount := sp_count sp\<rparr> else s2)"

definition calculateAccuracy :: "QuizResult list \<Rightarrow> int" where
  "calculateAccuracy rs =
     (if length rs = 0 then 0
      else
        (let correct = length (filter isCorrect rs)
         in Math_round (js_mul (js_div (of_nat correct) (of_nat (length rs))) 100)))"

text \<open>
  The events of a quiz page. An event whose guard fails leaves the state as it is. Effects
  and timer callbacks may run at any moment, which covers every schedule of the browser; the
  timeout that advances exists only in a started quiz, since only an answer or a time-up
  of a started quiz sets it. The fetch effect is two events: its start, which sends a
  request unless the quiz has started, and the arrival of a response to a request in flight,
  at any later moment.
\<close>

datatype quizEvent =
    FetchEffect
  | WordsFetched "nat \<Rightarrow> nat" "nat \<Rightarrow> nat" "nat \<Rightarrow> nat" "Word list"
  | StartQuiz searchParams "nat \<Rightarrow> nat" "nat \<Rightarrow> nat" "nat \<Rightarrow> nat"
  | IntervalTick
  | TimerEffect "string option"
  | AnswerSelect "string option" string
  | NextQuestionTimeout "nat \<Rightarrow> nat" "nat \<Rightarrow> nat" "nat \<Rightarrow> nat"
  | ParamsChanged searchParams

fun quizStep :: "quizState \<Rightarrow> quizEvent \<Rightarrow> quizState" where
  "quizStep s FetchEffect = fetchEffect s"
| "quizStep s (WordsFetched rnd1 rnd2 rnd3 ws) =
     (if 0 < fetchesInFlight s
      then wordsFetched rnd1 rnd2 rnd3 ws (s\<lparr>fetchesInFlight := fetchesInFlight s - 1\<rparr>)
      else s)"
| "quizStep s (StartQuiz sp rnd1 rnd2 rnd3) = startQuiz sp rnd1 rnd2 rnd3 s"
| "quizStep s IntervalTick = (if intervalInstalled s then intervalTick s else s)"
| "quizStep s (TimerEffect token) = timerEffect token s"
| "quizStep s (AnswerSelect token answer) = handleAnswerSelect token answer s"
| "quizStep s (NextQuestionTimeout rnd1 rnd2 rnd3) =
     (if quizStarted s
      then (case moveToNextQuestion rnd1 rnd2 rnd3 s of Inl e \<Rightarrow> s | Inr s' \<Rightarrow> s')
      else s)"
| "quizStep s (ParamsChanged sp) = paramsEffects sp s"

definition quizRun :: "searchParams \<Rightarrow> quizEvent list \<Rightarrow> quizState" where
  "quizRun sp events = foldl quizStep (initialQuizState sp) events"

section \<open>Flashcards: the state of the page and its handlers\<close>

text \<open>
  Besides the \<open>useState\<close> cells the state holds the two refs and the timeouts that are
  pending: \<open>effectTimer\<close> is the timeout that the latest run of the timer effect created and
  its cleanup has not yet cleared, \<open>navTimeouts\<close> counts the 100 ms timeouts that release
  the navigation flag. \<open>timeUpTimerRef\<close> tells whether the ref holds a timer.
\<close>

datatype flashTimer = NoTimer | TickTimer | TimeUpTimer

record flashState =
  fc_words :: "Word list"
  fc_currentIndex :: int
  progress :: "int \<rightharpoonup> Progress"
  sessionStarted :: bool
  sessionFinished :: bool
  timeLeft :: int
  fc_isTimeUp :: bool
  fc_level :: string
  isFlipped :: bool
  isNavigating :: bool
  timeUpTimerRef :: bool
  prevCardIndexRef :: int
  effectTimer :: flashTimer
  navTimeouts :: nat
  fc_fetchesInFlight :: nat
  fc_effects :: "effect list"

definition initialFlashState :: "string \<Rightarrow> (int \<rightharpoonup> Progress) \<Rightarrow> flashState" where
  \<comment> \<open>\<open>saved\<close> is the progress read from the local storage\<close>
  "initialFlashState initialLevel saved =
     \<lparr>fc_words = [], fc_currentIndex = 0, progress = saved, sessionStarted = False,
      sessionFinished = False, timeLeft = 5, fc_isTimeUp = False, fc_level = initialLevel,
      isFlipped = False, isNavigating = False, timeUpTimerRef = False, prevCardIndexRef = 0,
      effectTimer = NoTimer, navTimeouts = 0, fc_fetchesInFlight = 0, fc_effects = []\<rparr>"

definition clearTimeUpTimer :: "flashState \<Rightarrow> flashState" where
  \<comment> \<open>\<open>if (timeUpTimerRef.current) { clearTimeout(timeUpTimerRef.current); timeUpTimerRef.current = null }\<close>\<close>
  "clearTimeUpTimer s =
     (if timeUpTimerRef s
      then s\<lparr>effectTimer := (if effectTimer s = TimeUpTimer then NoTimer else effectTimer s),
             timeUpTimerRef := False\<rparr>
      else s)"

definition fcFetchEffect :: "flashState \<Rightarrow> flashState" where
  \<comment> \<open>the start of the fetch effect: no request in a started session or before the result
      view, else one more request in flight\<close>
  "fcFetchEffect s =
     (if sessionStarted s then s
      else if sessionFinished s then s
      else s\<lparr>fc_fetchesInFlight := fc_fetchesInFlight s + 1\<rparr>)"

definition fcWordsFetched :: "Word list \<Rightarrow> flashState \<Rightarrow> flashState" where
  \<comment> \<open>the rest of the fetch effect, run when the response arrives: it tests nothing but the
      response\<close>
  "fcWordsFetched data_words s =
     (if data_words \<noteq> [] then s\<lparr>fc_words := data_words\<rparr> else s)"

definition handleLevelChange :: "string \<Rightarrow> flashState \<Rightarrow> flashState" where
  "handleLevelChange nextLevel s =
     s\<lparr>fc_level := nextLevel, sessionStarted := False, sessionFinished := False,
       fc_currentIndex := 0, timeLeft := 5, fc_isTimeUp := False, prevCardIndexRef := 0\<rparr>"

definition flipResetEffect :: "flashState \<Rightarrow> flashState" where
  "flipResetEffect s =
     (if \<not> sessionStarted s \<or> int (length (fc_words s)) \<le> fc_currentIndex s then s
      else s\<lparr>isFlipped := False\<rparr>)"

definition tickCallback :: "flashState \<Rightarrow> flashState" where
  \<comment> \<open>the timeout of the branch with time left\<close>
  "tickCallback s = s\<lparr>timeLeft := timeLeft s - 1, effectTimer := NoTimer\<rparr>"

definition timeUpCallback :: "flashState \<Rightarrow> flashState" where
  \<comment> \<open>the timeout of the branch at zero: the automatic advance\<close>
  "timeUpCallback s =
     (let s1 = s\<lparr>timeUpTimerRef := False, effectTimer := NoTimer\<rparr>
      in if fc_currentIndex s < int (length (fc_words s)) - 1 then
           s1\<lparr>fc_currentIndex := fc_currentIndex s + 1,
              prevCardIndexRef := fc_currentIndex s + 1,
              isFlipped := False, timeLeft := 5, fc_isTimeUp := False, isNavigating := False\<rparr>
         else
           s1\<lparr>sessionFinished := True, fc_currentIndex := 0, prevCardIndexRef := 0,
              isFlipped := False, isNavigating := False\<rparr>)"

definition flashTimerEffect :: "flashState \<Rightarrow> flashState" where
  \<comment> \<open>a run of the timer effect; the cleanup of the run before it has cleared that run's timeout\<close>
  "flashTimerEffect s =
     (let s0 = s\<lparr>effectTimer := NoTimer\<rparr>
      in if \<not> sessionStarted s \<or> int (length (fc_words s)) \<le> fc_currentIndex s then s0
         else
           (let s1 = clearTimeUpTimer s0
            in if 0 < timeLeft s then s1\<lparr>fc_isTimeUp := False, effectTimer := TickTimer\<rparr>
               else if timeLeft s \<le> 0 \<and> \<not> fc_isTimeUp s then
                 s1\<lparr>fc_isTimeUp := True, effectTimer := TimeUpTimer, timeUpTimerRef := True\<rparr>
               else s1))"

definition cardChangedEffect :: "flashState \<Rightarrow> flashState" where
  \<comment> \<open>the effect that resets the countdown when the card changes\<close>
  "cardChangedEffect s =
     (if \<not> sessionStarted s \<or> int (length (fc_words s)) \<le> fc_currentIndex s then s
      else (clearTimeUpTimer s)\<lparr>timeLeft := 5, fc_isTimeUp := False,
                                 prevCardIndexRef := fc_currentIndex s\<rparr>)"

definition nextCard :: "flashState \<Rightarrow> flashState" where
  "nextCard s =
     (if isNavigating s then s
      else
        (let s1 = clearTimeUpTimer (s\<lparr>isNavigating := True\<rparr>);
             s2 = (if fc_currentIndex s < int (length (fc_words s)) - 1 then
                     s1\<lparr>fc_currentIndex := fc_currentIndex s + 1,
                        prevCardIndexRef := fc_currentIndex s + 1,
                        isFlipped := False, timeLeft := 5, fc_isTimeUp := False\<rparr>
                   else
                     s1\<lparr>sessionFinished := True, fc_currentIndex := 0, prevCardIndexRef := 0,
                        isFlipped := False\<rparr>)
         in s2\<lparr>navTimeouts := navTimeouts s2 + 1\<rparr>))"

definition prevCard :: "flashState \<Rightarrow> flashState" where
  "prevCard s =
     (if isNavigating s then s
      else
        (let s1 = clearTimeUpTimer (s\<lparr>isNavigating := True\<rparr>);
             s2 = (if 0 < fc_currentIndex s then
                     s1\<lparr>fc_currentIndex := fc_currentIndex s - 1,
                        prevCardIndexRef := fc_currentIndex s - 1,
                        isFlipped := False, timeLeft := 5, fc_isTimeUp := False\<rparr>
                   else s1)
         in s2\<lparr>navTimeouts := navTimeouts s2 + 1\<rparr>))"

definition navTimeout :: "flashState \<Rightarrow> flashState" where
  \<comment> \<open>the 100 ms timeout of \<open>nextCard\<close> and \<open>prevCard\<close>\<close>
  "navTimeout s = s\<lparr>isNavigating := False, navTimeouts := navTimeouts s - 1\<rparr>"

definition saveUserWordFlashcard :: "string option \<Rightarrow> int \<Rightarrow> bool \<Rightarrow> effect list" where
  "saveUserWordFlashcard token wordId learned =
     (if \<not> truthy_string token then []
      else [Fetch \<lparr>authorization = Some (''Bearer '' @ the token),
                   body = \<lparr>b_wordId = Some wordId, b_isCorrect = Some True,
                            b_status = Some status_learning,
                            b_studyType = Some ''flashcard'', b_isLearned = Some learned\<rparr>\<rparr>])"

definition markWord :: "int \<Rightarrow> string option \<Rightarrow> int \<Rightarrow> flashState \<Rightarrow> flashState" where
  \<comment> \<open>\<open>markAsStudiedForWord\<close> with its writes: the new map and the request of the new flag\<close>
  "markWord now token wordId s =
     (let newProgress = markAsStudiedForWord now wordId (progress s)
      in s\<lparr>progress := newProgress,
           fc_effects := fc_effects s
              @ saveUserWordFlashcard token wordId (isLearned (the (newProgress wordId)))\<rparr>)"

definition markAsStudied :: "int \<Rightarrow> string option \<Rightarrow> flashState \<Rightarrow> flashState" where
  "markAsStudied now token s =
     (case index_js (fc_words s) (fc_currentIndex s) of
        Some currentWord \<Rightarrow> markWord now token (w_id currentWord) s
      | None \<Rightarrow> s)"

definition startSession :: "flashState \<Rightarrow> flashState" where
  "startSession s =
     s\<lparr>sessionFinished := False, fc_currentIndex := 0, prevCardIndexRef := 0,
       isFlipped := False, timeLeft := 5, fc_isTimeUp := False, sessionStarted := True\<rparr>"

definition playAgain :: "flashState \<Rightarrow> flashState" where
  \<comment> \<open>the button of the result view\<close>
  "playAgain s =
     (clearTimeUpTimer s)\<lparr>sessionFinished := False, sessionStarted := False,
        fc_currentIndex := 0, prevCardIndexRef := 0, isFlipped := False, timeLeft := 5,
        fc_isTimeUp := False\<rparr>"

text \<open>
  The events of a flashcard page. The buttons exist in the view that renders them: the
  start button and the level buttons in the setup view (the start button is disabled
  without words), the card buttons in the card view, the restart button in the result
  view. Effects and timeouts may run at any moment; a timeout runs only while pending. The
  fetch effect is two events, its start and the arrival of a response to a request in
  flight. The timer effect has \<open>isTimeUp\<close> among its dependencies and writes it: when a run
  changes it, the effect runs once more before anything else happens, its cleanup clearing
  the timeout that the first run has set.
\<close>

datatype flashView = SetupView | ResultView | CardView

definition viewOf :: "flashState \<Rightarrow> flashView" where
  "viewOf s = (if \<not> sessionStarted s then SetupView
               else if sessionFinished s then ResultView else CardView)"

datatype flashEvent =
    FcFetchEffect
  | FcWordsFetched "Word list"
  | LevelChange string
  | StartSession
  | NextCard
  | PrevCard
  | FlipCard
  | MarkAsStudied int "string option"
  | PlayAgain
  | NavTimeout
  | TimerFired
  | TimerEffectRun
  | CardChangedEffectRun
  | FlipResetEffectRun

fun flashStep :: "flashState \<Rightarrow> flashEvent \<Rightarrow> flashState" where
  "flashStep s FcFetchEffect = fcFetchEffect s"
| "flashStep s (FcWordsFetched ws) =
     (if 0 < fc_fetchesInFlight s
      then fcWordsFetched ws (s\<lparr>fc_fetchesInFlight := fc_fetchesInFlight s - 1\<rparr>)
      else s)"
| "flashStep s (LevelChange l) = (if viewOf s = SetupView then handleLevelChange l s else s)"
| "flashStep s StartSession =
     (if viewOf s = SetupView \<and> fc_words s \<noteq> [] then startSession s else s)"
| "flashStep s NextCard = (if viewOf s = CardView then nextCard s else s)"
| "flashStep s PrevCard = (if viewOf s = CardView then prevCard s else s)"
| "flashStep s FlipCard = (if viewOf s = CardView then s\<lparr>isFlipped := \<not> isFlipped s\<rparr> else s)"
| "flashStep s (MarkAsStudied now token) =
     (if viewOf s = CardView then markAsStudied now token s else s)"
| "flashStep s PlayAgain = (if viewOf s = ResultView then playAgain s else s)"
| "flashStep s NavTimeout = (if 0 < navTimeouts s then navTimeout s else s)"
| "flashStep s TimerFired =
     (case effectTimer s of
        NoTimer \<Rightarrow> s
      | TickTimer \<Rightarrow> tickCallback s
      | TimeUpTimer \<Rightarrow> timeUpCallback s)"
| "flashStep s TimerEffectRun =
     (let s1 = flashTimerEffect s
      in if fc_isTimeUp s1 = fc_isTimeUp s then s1 else flashTimerEffect s1)"
| "flashStep s CardChangedEffectRun = cardChangedEffect s"
| "flashStep s FlipResetEffectRun = flipResetEffect s"

definition flashRun :: "string \<Rightarrow> (int \<rightharpoonup> Progress) \<Rightarrow> flashEvent list \<Rightarrow> flashState" where
  "flashRun initialLevel saved events = foldl flashStep (initialFlashState initialLevel saved) events"

section \<open>Runs of the countdowns and the invariants\<close>

definition quizTicks :: "nat \<Rightarrow> quizState \<Rightarrow> quizState" where
  \<comment> \<open>\<open>k\<close> deliveries of the 100 ms interval\<close>
  "quizTicks k s = foldl quizStep s (replicate k IntervalTick)"

definition flashTicks :: "nat \<Rightarrow> flashState \<Rightarrow> flashState" where
  \<comment> \<open>\<open>k\<close> rounds of the timer effect followed by its one-second timeout\<close>
  "flashTicks k s = foldl flashStep s (concat (replicate k [TimerEffectRun, TimerFired]))"

definition quizInv :: "quizState \<Rightarrow> bool" where
  "quizInv s = (0 \<le> currentIndex s \<and> 0 \<le> timeLeftMs s)"

definition flashInv :: "flashState \<Rightarrow> bool" where
  "flashInv s =
     (effectTimer s \<noteq> TimeUpTimer
      \<and> 0 \<le> timeLeft s
      \<and> (if effectTimer s = TickTimer then 0 < timeLeft s else True))"

definition quizBounds :: "quizState \<Rightarrow> bool" where
  "quizBounds s =
     (0 \<le> currentIndex s
      \<and> (if quizStarted s then currentIndex s < int (length (words s)) else currentIndex s = 0))"

definition flashBounds :: "flashState \<Rightarrow> bool" where
  "flashBounds s =
     (0 \<le> fc_currentIndex s
      \<and> (if sessionStarted s then fc_currentIndex s < int (length (fc_words s))
         else fc_currentIndex s = 0))"

definition lateResponse :: "quizState \<Rightarrow> quizEvent \<Rightarrow> bool" where
  \<comment> \<open>the event is a response that arrives in a started quiz\<close>
  "lateResponse s e =
     (case e of WordsFetched rnd1 rnd2 rnd3 ws \<Rightarrow> quizStarted s | _ \<Rightarrow> False)"

definition fcLateResponse :: "flashState \<Rightarrow> flashEvent \<Rightarrow> bool" where
  \<comment> \<open>the event is a response that arrives in a started session\<close>
  "fcLateResponse s e = (case e of FcWordsFetched ws \<Rightarrow> sessionStarted s | _ \<Rightarrow> False)"

section \<open>Concrete inputs\<close>

definition demoToken :: "string \<Rightarrow> int option" where
  "demoToken t = (if t = ''t1'' then Some 7 else None)"

definition demoDefaults :: userWord where
  "demoDefaults =
     \<lparr>uw_userId = 0, uw_wordId = 0, uw_status = status_learning, correctCount = 0,
      mistakeCount = 0, quizCorrectCount = 0, quizMistakeCount = 0, flashcardLearnedCount = 0,
      lastStudiedAt = 0\<rparr>"

definition demoExisting :: userWord where
  "demoExisting =
     \<lparr>uw_userId = 7, uw_wordId = 5, uw_status = status_learning, correctCount = 3,
      mistakeCount = 2, quizCorrectCount = 1, quizMistakeCount = 2, flashcardLearnedCount = 2,
      lastStudiedAt = 10\<rparr>"

definition demoRequest :: "bool option \<Rightarrow> postRequest" where
  "demoRequest learned =
     \<lparr>authorization = Some ''Bearer t1'',
      body = \<lparr>b_wordId = Some 5, b_isCorrect = Some True, b_status = Some status_learning,
               b_studyType = Some ''flashcard'', b_isLearned = learned\<rparr>\<rparr>"

definition keepOrder :: "nat \<Rightarrow> nat" where
  \<comment> \<open>the draws \<open>j = i\<close>, which leave the array as it is\<close>
  "keepOrder i = i"

definition demoWord :: "int \<Rightarrow> string \<Rightarrow> string \<Rightarrow> Word" where
  "demoWord n e j = \<lparr>w_id = n, english = e, japanese = j, level = ''1''\<rparr>"

definition poolFour :: "Word list" where
  "poolFour =
     [demoWord 1 ''one'' ''ichi'', demoWord 2 ''two'' ''ni'', demoWord 3 ''three'' ''san'',
      demoWord 4 ''four'' ''yon'']"

definition poolFive :: "Word list" where
  "poolFive = poolFour @ [demoWord 5 ''five'' ''go'']"

definition poolSynonym :: "Word list" where
  \<comment> \<open>five words, two of which share their Japanese field\<close>
  "poolSynonym =
     [demoWord 1 ''big'' ''ookii'', demoWord 2 ''large'' ''ookii'', demoWord 3 ''two'' ''ni'',
      demoWord 4 ''three'' ''san'', demoWord 5 ''four'' ''yon'']"

definition poolEmptyAnswer :: "Word list" where
  \<comment> \<open>five words, the first of which has the empty string as its Japanese field\<close>
  "poolEmptyAnswer =
     [demoWord 1 ''one'' [], demoWord 2 ''two'' ''ni'', demoWord 3 ''three'' ''san'',
      demoWord 4 ''four'' ''yon'', demoWord 5 ''five'' ''go'']"

definition demoParams :: searchParams where
  "demoParams = \<lparr>sp_mode = EnToJa, sp_level = ''all'', sp_count = 10\<rparr>"

definition demoQuizStart :: "Word list \<Rightarrow> quizEvent list" where
  "demoQuizStart ws =
     [FetchEffect, WordsFetched keepOrder keepOrder keepOrder ws,
      StartQuiz demoParams keepOrder keepOrder keepOrder]"

definition demoAdvance :: "quizEvent list" where
  \<comment> \<open>a wrong answer to the first question, then the delayed advance to the second\<close>
  "demoAdvance =
     demoQuizStart poolEmptyAnswer
       @ [AnswerSelect None ''ni'', NextQuestionTimeout keepOrder keepOrder keepOrder]"

definition demoResult :: "bool \<Rightarrow> QuizResult" where
  "demoResult correct =
     \<lparr>r_wordId = 1, r_english = ''one'', r_japanese = ''ichi'',
      userAnswer = (if correct then ''ichi'' else ''ni''), correctAnswer = ''ichi'',
      isCorrect = correct, timeSpent = 3\<rparr>"

definition exactPercentage :: "nat \<Rightarrow> nat \<Rightarrow> int" where
  \<comment> \<open>the value the specification names: \<open>100 * correctCount / total\<close> in exact arithmetic,
      rounded to the nearest integer, a half going up\<close>
  "exactPercentage c n = \<lfloor>100 * of_nat c / (of_nat n :: rat) + 1 / 2\<rfloor>"

definition demoQuiz :: quizState where
  \<comment> \<open>a quiz over five words that has just been started\<close>
  "demoQuiz = quizRun demoParams (demoQuizStart poolFive)"

definition demoFlashStart :: "flashEvent list" where
  "demoFlashStart = [FcFetchEffect, FcWordsFetched poolFive, StartSession]"

definition demoFlash :: flashState where
  \<comment> \<open>a flashcard session over five words that has just been started\<close>
  "demoFlash = flashRun ''all'' Map.empty demoFlashStart"

definition poolTwo :: "Word list" where
  "poolTwo = [demoWord 6 ''six'' ''roku'', demoWord 7 ''seven'' ''nana'']"

definition demoParamsLevel :: searchParams where
  \<comment> \<open>the parameters after the choice of another level\<close>
  "demoParamsLevel = \<lparr>sp_mode = EnToJa, sp_level = ''3'', sp_count = 10\<rparr>"

definition lateQuizRun :: "quizEvent list" where
  \<comment> \<open>five words arrive; another level is chosen, which sends a second request; the quiz is
      started on the five words before its response; three questions are answered; then
      the response arrives with two words\<close>
  "lateQuizRun =
     [FetchEffect, WordsFetched keepOrder keepOrder keepOrder poolFive,
      ParamsChanged demoParamsLevel, FetchEffect,
      StartQuiz demoParamsLevel keepOrder keepOrder keepOrder,
      AnswerSelect None ''ichi'', NextQuestionTimeout keepOrder keepOrder keepOrder,
      AnswerSelect None ''ni'', NextQuestionTimeout keepOrder keepOrder keepOrder,
      AnswerSelect None ''san'', NextQuestionTimeout keepOrder keepOrder keepOrder,
      WordsFetched keepOrder keepOrder keepOrder poolTwo]"

definition lateFlashRun :: "flashEvent list" where
  \<comment> \<open>five words arrive; another level is chosen, which sends a second request; the session
      is started on the five words before its response; the card is advanced three times;
      then the response arrives with two words\<close>
  "lateFlashRun =
     [FcFetchEffect, FcWordsFetched poolFive, LevelChange ''3'', FcFetchEffect, StartSession,
      NextCard, NavTimeout, NextCard, NavTimeout, NextCard, NavTimeout,
      FcWordsFetched poolTwo]"

definition demoLocked :: "flashEvent list" where
  \<comment> \<open>a started session in which the advance button has just been pressed\<close>
  "demoLocked = demoFlashStart @ [NextCard]"

section \<open>Properties of the learning-history endpoint\<close>

lemma startsWith_Bearer_nonempty: "startsWith_Bearer h \<Longrightarrow> h \<noteq> []"
  by (auto simp: startsWith_Bearer_def)

lemma POST_existing:
  assumes "authorization req = Some h" and "startsWith_Bearer h"
    and "verifyToken (drop 7 h) = Some uid"
    and "b_wordId (body req) = Some wid" and "wid \<noteq> 0"
    and "db (uid, wid) = Some existing"
  shows "POST verifyToken dflt now req db =
           (UserWordResponse (applyData (updateData now (body req) existing) existing),
            db((uid, wid) \<mapsto> applyData (updateData now (body req) existing) existing))"
  using assms startsWith_Bearer_nonempty [OF assms(2)]
  by (simp add: POST_def truthy_int_def Let_def)

lemma POST_missing:
  assumes "authorization req = Some h" and "startsWith_Bearer h"
    and "verifyToken (drop 7 h) = Some uid"
    and "b_wordId (body req) = Some wid" and "wid \<noteq> 0"
    and "db (uid, wid) = None"
  shows "POST verifyToken dflt now req db =
           (UserWordResponse (applyData (createData now (body req))
                                (dflt\<lparr>uw_userId := uid, uw_wordId := wid\<rparr>)),
            db((uid, wid) \<mapsto> applyData (createData now (body req))
                                (dflt\<lparr>uw_userId := uid, uw_wordId := wid\<rparr>)))"
  using assms startsWith_Bearer_nonempty [OF assms(2)]
  by (simp add: POST_def truthy_int_def Let_def)

lemma POST_quiz_miss_existing:
  assumes "verifyToken (c # t) = Some uid" and "wid \<noteq> 0"
    and "db (uid, wid) = Some existing"
    and "saveUserWord (Some (c # t)) wid False = [Fetch req]"
  shows "\<exists>u. POST verifyToken dflt now req db = (UserWordResponse u, db((uid, wid) \<mapsto> u))
           \<and> mistakeCount u = mistakeCount existing + 1
           \<and> correctCount u = correctCount existing
           \<and> quizCorrectCount u = quizCorrectCount existing
           \<and> quizMistakeCount u = quizMistakeCount existing"
proof -
  from assms(4) have req: "req = \<lparr>authorization = Some (''Bearer '' @ c # t),
                   body = \<lparr>b_wordId = Some wid, b_isCorrect = Some False,
                            b_status = Some status_learning,
                            b_studyType = None, b_isLearned = None\<rparr>\<rparr>"
    by (simp add: saveUserWord_def truthy_string_def)
  let ?u = "applyData (updateData now (body req) existing) existing"
  have "POST verifyToken dflt now req db = (UserWordResponse ?u, db((uid, wid) \<mapsto> ?u))"
    using assms(1-3)
    by (intro POST_existing [where h = "''Bearer '' @ c # t"])
       (simp_all add: req startsWith_Bearer_def)
  moreover have "mistakeCount ?u = mistakeCount existing + 1 \<and> correctCount ?u = correctCount existing
      \<and> quizCorrectCount ?u = quizCorrectCount existing
      \<and> quizMistakeCount ?u = quizMistakeCount existing"
    by (simp add: req updateData_def applyData_def emptyData_def or_field_def truthy_bool_def Let_def)
  ultimately show ?thesis by blast
qed

text \<open>
  C5. For an existing record whose legacy correct counter is not negative, an authorised
  flashcard write with \<open>isLearned = false\<close> stores a record whose flashcard-learned counter
  is 0 and whose legacy correct counter is one less when it was positive and 0 when it was 0,
  so never below 0; the two quiz counters and the legacy mistake counter keep their values.
\<close>

theorem POST_flashcard_unlearn:
  assumes "authorization req = Some h" and "startsWith_Bearer h"
    and "verifyToken (drop 7 h) = Some uid"
    and "b_wordId (body req) = Some wid" and "wid \<noteq> 0"
    and "db (uid, wid) = Some existing"
    and "b_studyType (body req) = Some ''flashcard''"
    and "b_isLearned (body req) = Some False"
    and "0 \<le> correctCount existing"
  shows "\<exists>u. POST verifyToken dflt now req db = (UserWordResponse u, db((uid, wid) \<mapsto> u))
           \<and> flashcardLearnedCount u = 0
           \<and> correctCount u = (if 0 < correctCount existing then correctCount existing - 1 else 0)
           \<and> 0 \<le> correctCount u
           \<and> quizCorrectCount u = quizCorrectCount existing
           \<and> quizMistakeCount u = quizMistakeCount existing
           \<and> mistakeCount u = mistakeCount existing"
proof -
  let ?u = "applyData (updateData now (body req) existing) existing"
  have post: "POST verifyToken dflt now req db = (UserWordResponse ?u, db((uid, wid) \<mapsto> ?u))"
    using assms(1-6) by (rule POST_existing)
  have fields: "flashcardLearnedCount ?u = 0"
    "correctCount ?u = (if 0 < correctCount existing then correctCount existing - 1 else 0)"
    "quizCorrectCount ?u = quizCorrectCount existing"
    "quizMistakeCount ?u = quizMistakeCount existing"
    "mistakeCount ?u = mistakeCount existing"
    using assms(7-9)
    by (auto simp: updateData_def applyData_def emptyData_def or_field_def Let_def)
  have "0 \<le> correctCount ?u"
    using fields(2) assms(9) by auto
  with post fields show ?thesis by blast
qed

theorem POST_flashcard_unlearn_witness:
  "\<exists>u. POST demoToken demoDefaults 11 (demoRequest (Some False)) [(7, 5) \<mapsto> demoExisting]
         = (UserWordResponse u, [(7, 5) \<mapsto> u])
       \<and> flashcardLearnedCount u = 0 \<and> correctCount u = 2 \<and> 0 \<le> correctCount u
       \<and> quizCorrectCount u = 1 \<and> quizMistakeCount u = 2 \<and> mistakeCount u = 2"
  using POST_flashcard_unlearn [of "demoRequest (Some False)" "''Bearer t1''" demoToken 7 5
      "[(7, 5) \<mapsto> demoExisting]" demoExisting demoDefaults 11]
  by (simp add: demoRequest_def demoToken_def demoExisting_def startsWith_Bearer_def)

text \<open>
  C9. When an authorised flashcard write finds no record for its key, the record created
  has flashcard-learned counter 1, legacy correct counter 1 and legacy mistake counter 0,
  whatever the request's \<open>isLearned\<close> field holds (true, false or nothing).
\<close>

theorem POST_flashcard_create:
  assumes "authorization req = Some h" and "startsWith_Bearer h"
    and "verifyToken (drop 7 h) = Some uid"
    and "b_wordId (body req) = Some wid" and "wid \<noteq> 0"
    and "db (uid, wid) = None"
    and "b_studyType (body req) = Some ''flashcard''"
  shows "\<exists>u. POST verifyToken dflt now (req\<lparr>body := (body req)\<lparr>b_isLearned := learned\<rparr>\<rparr>) db
               = (UserWordResponse u, db((uid, wid) \<mapsto> u))
           \<and> flashcardLearnedCount u = 1 \<and> correctCount u = 1 \<and> mistakeCount u = 0"
proof -
  let ?req = "req\<lparr>body := (body req)\<lparr>b_isLearned := learned\<rparr>\<rparr>"
  let ?u = "applyData (createData now (body ?req)) (dflt\<lparr>uw_userId := uid, uw_wordId := wid\<rparr>)"
  have "POST verifyToken dflt now ?req db = (UserWordResponse ?u, db((uid, wid) \<mapsto> ?u))"
    using assms(1-6) by (intro POST_missing [where h = h]) simp_all
  moreover have "flashcardLearnedCount ?u = 1 \<and> correctCount ?u = 1 \<and> mistakeCount ?u = 0"
    using assms(7)
    by (simp add: createData_def applyData_def emptyData_def or_field_def Let_def)
  ultimately show ?thesis by blast
qed

theorem POST_flashcard_create_witness:
  "\<exists>u. POST demoToken demoDefaults 11 (demoRequest (Some False)) Map.empty
         = (UserWordResponse u, [(7, 5) \<mapsto> u])
       \<and> flashcardLearnedCount u = 1 \<and> correctCount u = 1 \<and> mistakeCount u = 0"
  using POST_flashcard_create [of "demoRequest None" "''Bearer t1''" demoToken 7 5
      Map.empty demoDefaults 11 "Some False"]
  by (simp add: demoRequest_def demoToken_def startsWith_Bearer_def)

section \<open>Properties of the flashcard progress map\<close>

text \<open>
  C2, as stated, fails: a word that is unlearned with study count 3 is unlearned again after
  two calls, but its study count is 4.
\<close>

theorem markAsStudiedForWord_twice_counterexample:
  "studyCount (the (markAsStudiedForWord 2 5 (markAsStudiedForWord 1 5
      [5 \<mapsto> \<lparr>p_wordId = 5, lastStudied = 0, studyCount = 3, isLearned = False\<rparr>]) 5)) \<noteq> 3"
  by (simp add: markAsStudiedForWord_def)

text \<open>
  C2, amended. Two calls in succession on the same word leave an entry whose learned flag is
  the one before the pair (false for a word without an entry) and whose study count is
  exactly one more than before the pair (1 for a word without an entry).
\<close>

theorem markAsStudiedForWord_twice:
  "\<exists>r. markAsStudiedForWord t2 w (markAsStudiedForWord t1 w prog) w = Some r
       \<and> lastStudied r = t2
       \<and> (case prog w of
              None \<Rightarrow> p_wordId r = w \<and> \<not> isLearned r \<and> studyCount r = 1
            | Some e \<Rightarrow> p_wordId r = p_wordId e \<and> isLearned r = isLearned e
                         \<and> studyCount r = studyCount e + 1)"
  by (cases "prog w") (auto simp: markAsStudiedForWord_def Let_def)

section \<open>Properties of the option generation\<close>

lemma length_swap [simp]: "length (swap xs i j) = length xs"
  by (simp add: swap_def)

lemma mset_swap_list: "i < length xs \<Longrightarrow> j < length xs \<Longrightarrow> mset (swap xs i j) = mset xs"
  unfolding swap_def by (simp add: mset_swap)

lemma mset_shuffleLoop: "i < length xs \<Longrightarrow> mset (shuffleLoop rnd i xs) = mset xs"
proof (induction i arbitrary: xs)
  case 0
  then show ?case by simp
next
  case (Suc i)
  define j where "j = rnd (Suc i) mod (Suc i + 1)"
  have "j < Suc i + 1"
    unfolding j_def by (rule mod_less_divisor) simp
  with Suc.prems have j: "j < length xs" by linarith
  have step: "shuffleLoop rnd (Suc i) xs = shuffleLoop rnd i (swap xs (Suc i) j)"
    unfolding j_def by (simp only: shuffleLoop.simps Let_def)
  have "i < length (swap xs (Suc i) j)"
    using Suc.prems by simp
  then have "mset (shuffleLoop rnd i (swap xs (Suc i) j)) = mset (swap xs (Suc i) j)"
    by (rule Suc.IH)
  also have "\<dots> = mset xs"
    using Suc.prems j by (rule mset_swap_list)
  finally show ?case
    by (simp only: step)
qed

lemma mset_shuffleArray: "mset (shuffleArray rnd xs) = mset xs"
proof (cases xs)
  case Nil
  then show ?thesis by (simp add: shuffleArray_def)
next
  case (Cons a as)
  then have "length xs - 1 < length xs" by simp
  then show ?thesis unfolding shuffleArray_def by (rule mset_shuffleLoop)
qed

lemma set_shuffleArray: "set (shuffleArray rnd xs) = set xs"
  using mset_shuffleArray [of rnd xs] by (rule mset_eq_setD)

lemma length_shuffleArray: "length (shuffleArray rnd xs) = length xs"
  using mset_shuffleArray [of rnd xs] by (rule mset_eq_length)

lemma distinct_shuffleArray: "distinct (shuffleArray rnd xs) = distinct xs"
  using mset_shuffleArray [of rnd xs] by (rule mset_eq_imp_distinct_iff)

lemma set_setAdd: "set (setAdd s x) = insert x (set s)"
  by (auto simp: setAdd_def)

lemma distinct_setAdd: "distinct s \<Longrightarrow> distinct (setAdd s x)"
  by (simp add: setAdd_def)

lemma length_setAdd: "length (setAdd s x) \<le> Suc (length s)"
  by (simp add: setAdd_def)

lemma distinct_drawWrong: "distinct uw \<Longrightarrow> distinct (drawWrong f uw ws)"
  by (induction ws arbitrary: uw) (simp_all add: distinct_setAdd)

lemma length_drawWrong_le: "length uw \<le> 3 \<Longrightarrow> length (drawWrong f uw ws) \<le> 3"
proof (induction ws arbitrary: uw)
  case Nil
  then show ?case by simp
next
  case (Cons w ws)
  show ?case
  proof (cases "3 \<le> length uw")
    case True
    with Cons.prems show ?thesis by simp
  next
    case False
    then have "length (setAdd uw (f w)) \<le> 3"
      using length_setAdd [of uw "f w"] by simp
    with False Cons.IH show ?thesis by simp
  qed
qed

lemma set_drawWrong_subset: "set (drawWrong f uw ws) \<subseteq> set uw \<union> f ` set ws"
proof (induction ws arbitrary: uw)
  case Nil
  then show ?case by simp
next
  case (Cons w ws)
  show ?case
  proof (cases "3 \<le> length uw")
    case True
    then show ?thesis by auto
  next
    case False
    have "set (drawWrong f (setAdd uw (f w)) ws) \<subseteq> set (setAdd uw (f w)) \<union> f ` set ws"
      by (rule Cons.IH)
    with False show ?thesis by (auto simp: set_setAdd)
  qed
qed

lemma drawWrong_short_all:
  "length (drawWrong f uw ws) < 3 \<Longrightarrow> set (drawWrong f uw ws) = set uw \<union> f ` set ws"
proof (induction ws arbitrary: uw)
  case Nil
  then show ?case by simp
next
  case (Cons w ws)
  show ?case
  proof (cases "3 \<le> length uw")
    case True
    with Cons.prems show ?thesis by simp
  next
    case False
    with Cons.prems have "length (drawWrong f (setAdd uw (f w)) ws) < 3" by simp
    then have "set (drawWrong f (setAdd uw (f w)) ws) = set (setAdd uw (f w)) \<union> f ` set ws"
      by (rule Cons.IH)
    with False show ?thesis by (auto simp: set_setAdd)
  qed
qed

lemma length_drawWrong_full:
  assumes "distinct uw" and "length uw \<le> 3" and "3 \<le> card (set uw \<union> f ` set ws)"
  shows "length (drawWrong f uw ws) = 3"
proof (rule ccontr)
  assume neq: "length (drawWrong f uw ws) \<noteq> 3"
  have le: "length (drawWrong f uw ws) \<le> 3"
    using assms(2) by (rule length_drawWrong_le)
  with neq have short: "length (drawWrong f uw ws) < 3" by simp
  then have "set (drawWrong f uw ws) = set uw \<union> f ` set ws"
    by (rule drawWrong_short_all)
  moreover have "card (set (drawWrong f uw ws)) = length (drawWrong f uw ws)"
    using assms(1) by (simp add: distinct_drawWrong distinct_card)
  ultimately show False using assms(3) short by simp
qed


lemma set_drawFallback_subset:
  "set (drawFallback f prev uw ws) \<subseteq> set uw \<union> {x \<in> f ` set ws. Some x \<noteq> prev}"
proof (induction ws arbitrary: uw)
  case Nil
  then show ?case by simp
next
  case (Cons w ws)
  show ?case
  proof (cases "3 \<le> length uw")
    case True
    then show ?thesis by auto
  next
    case notfull: False
    show ?thesis
    proof (cases "Some (f w) = prev")
      case True
      have "set (drawFallback f prev uw ws) \<subseteq> set uw \<union> {x \<in> f ` set ws. Some x \<noteq> prev}"
        by (rule Cons.IH)
      with notfull True show ?thesis by auto
    next
      case False
      have "set (drawFallback f prev (setAdd uw (f w)) ws)
              \<subseteq> set (setAdd uw (f w)) \<union> {x \<in> f ` set ws. Some x \<noteq> prev}"
        by (rule Cons.IH)
      with notfull False show ?thesis by (auto simp: set_setAdd)
    qed
  qed
qed

lemma answerField_EnToJa: "answerField EnToJa = japanese"
  by (rule ext) (simp add: answerField_def)

lemma answerField_JaToEn: "answerField JaToEn = english"
  by (rule ext) (simp add: answerField_def)

lemma generateOptions_optionsFor:
  "generateOptions mode rnd1 rnd2 rnd3 question allWords prevAnswer =
     optionsFor (answerField mode) rnd1 rnd2 rnd3 question allWords prevAnswer"
  by (cases mode) (simp_all add: generateOptions_def answerField_EnToJa answerField_JaToEn)

lemma optionsFor_enough:
  assumes "3 \<le> card (f ` set (candidatePool f question allWords prevAnswer))"
  shows "\<exists>uw. optionsFor f rnd1 rnd2 rnd3 question allWords prevAnswer
                 = shuffleArray rnd3 (f question # uw)
              \<and> length uw = 3 \<and> distinct uw
              \<and> set uw \<subseteq> f ` set (candidatePool f question allWords prevAnswer)"
proof -
  let ?cands = "shuffleArray rnd1 (candidatePool f question allWords prevAnswer)"
  let ?uw = "drawWrong f [] ?cands"
  have cands: "set ?cands = set (candidatePool f question allWords prevAnswer)"
    by (rule set_shuffleArray)
  have len: "length ?uw = 3"
    using assms by (intro length_drawWrong_full) (simp_all add: cands)
  have dist: "distinct ?uw"
    by (rule distinct_drawWrong) simp
  have sub: "set ?uw \<subseteq> f ` set (candidatePool f question allWords prevAnswer)"
    using set_drawWrong_subset [of f "[]" ?cands] by (simp add: cands)
  have "optionsFor f rnd1 rnd2 rnd3 question allWords prevAnswer
          = shuffleArray rnd3 (f question # ?uw)"
    using len by (simp add: optionsFor_def Let_def)
  with len dist sub show ?thesis by blast
qed

lemma optionsFor_excludes:
  assumes "prevAnswer = Some p" and "p \<noteq> []" and "p \<noteq> f question"
  shows "p \<notin> set (optionsFor f rnd1 rnd2 rnd3 question allWords prevAnswer)"
proof -
  let ?cands = "shuffleArray rnd1 (candidatePool f question allWords prevAnswer)"
  let ?uw = "drawWrong f [] ?cands"
  let ?fb = "drawFallback f prevAnswer ?uw (shuffleArray rnd2 (fallbackPool question allWords))"
  have "set ?uw \<subseteq> f ` set ?cands"
    using set_drawWrong_subset [of f "[]" ?cands] by simp
  moreover have "p \<notin> f ` set ?cands"
    using assms(1,2)
    by (auto simp: set_shuffleArray candidatePool_def truthy_string_def)
  ultimately have uw: "p \<notin> set ?uw" by blast
  have "set ?fb \<subseteq> set ?uw \<union>
          {x \<in> f ` set (shuffleArray rnd2 (fallbackPool question allWords)). Some x \<noteq> prevAnswer}"
    by (rule set_drawFallback_subset)
  with uw assms(1) have fb: "p \<notin> set ?fb" by auto
  have "set (optionsFor f rnd1 rnd2 rnd3 question allWords prevAnswer)
          \<subseteq> insert (f question) (set ?uw \<union> set ?fb)"
    by (auto simp: optionsFor_def Let_def set_shuffleArray dest: in_set_takeD)
  with uw fb assms(3) show ?thesis by auto
qed

text \<open>
  The wrong answers are not compared with the correct one: when another word of the pool
  carries the question's own answer, that answer can be drawn as a wrong answer and then
  stands twice among the options.
\<close>

lemma generateOptions_synonym:
  "generateOptions EnToJa keepOrder keepOrder keepOrder (poolSynonym ! 0) poolSynonym None
     = [''ookii'', ''ookii'', ''ni'', ''san'']"
  by code_simp

text \<open>
  C1, as stated, fails: in a pool of four words with four distinct Japanese fields, the
  options for the second word after the first hold three entries, because the answer of the
  first word is excluded in the first pass and in the fallback pass alike.
\<close>

theorem generateOptions_four_counterexample:
  "4 \<le> length poolFour \<and> 4 \<le> card (japanese ` set poolFour)
   \<and> length (generateOptions EnToJa keepOrder keepOrder keepOrder (poolFour ! 1) poolFour
               (Some ''ichi'')) \<noteq> 4"
proof -
  have "length (generateOptions EnToJa keepOrder keepOrder keepOrder (poolFour ! 1) poolFour
               (Some ''ichi'')) = 3"
    by code_simp
  moreover have "card (japanese ` set poolFour) = 4"
    by code_simp
  moreover have "length poolFour = 4"
    by (simp add: poolFour_def)
  ultimately show ?thesis by simp
qed

text \<open>
  C1, amended. Whenever the candidates (the words of the pool whose id differs from the
  question's, without those whose answer field equals a non-empty excluded answer) carry at
  least three distinct answer values, none of which is the question's own answer, the
  options are exactly four pairwise distinct entries, one of which is the correct answer;
  this holds for every outcome of the three shuffles.
\<close>

theorem generateOptions_four:
  assumes "3 \<le> card (answerField mode `
                  set (candidatePool (answerField mode) question allWords prevAnswer))"
    and "answerField mode question \<notin>
           answerField mode ` set (candidatePool (answerField mode) question allWords prevAnswer)"
  shows "length (generateOptions mode rnd1 rnd2 rnd3 question allWords prevAnswer) = 4
         \<and> distinct (generateOptions mode rnd1 rnd2 rnd3 question allWords prevAnswer)
         \<and> answerField mode question
               \<in> set (generateOptions mode rnd1 rnd2 rnd3 question allWords prevAnswer)"
proof -
  obtain uw where opts: "optionsFor (answerField mode) rnd1 rnd2 rnd3 question allWords prevAnswer
                 = shuffleArray rnd3 (answerField mode question # uw)"
      and len: "length uw = 3" and dist: "distinct uw"
      and sub: "set uw \<subseteq> answerField mode `
                  set (candidatePool (answerField mode) question allWords prevAnswer)"
    using optionsFor_enough [OF assms(1)] by blast
  from sub assms(2) have "answerField mode question \<notin> set uw" by blast
  with len dist show ?thesis
    by (simp add: generateOptions_optionsFor opts length_shuffleArray distinct_shuffleArray
        set_shuffleArray)
qed


theorem generateOptions_four_witness:
  "3 \<le> card (answerField EnToJa `
            set (candidatePool (answerField EnToJa) (poolFive ! 0) poolFive (Some ''ni'')))
   \<and> answerField EnToJa (poolFive ! 0) \<notin>
         answerField EnToJa ` set (candidatePool (answerField EnToJa) (poolFive ! 0) poolFive (Some ''ni''))
   \<and> length (generateOptions EnToJa keepOrder keepOrder keepOrder (poolFive ! 0) poolFive (Some ''ni'')) = 4
   \<and> distinct (generateOptions EnToJa keepOrder keepOrder keepOrder (poolFive ! 0) poolFive (Some ''ni''))
   \<and> answerField EnToJa (poolFive ! 0)
         \<in> set (generateOptions EnToJa keepOrder keepOrder keepOrder (poolFive ! 0) poolFive (Some ''ni''))"
proof -
  have h1: "3 \<le> card (answerField EnToJa `
            set (candidatePool (answerField EnToJa) (poolFive ! 0) poolFive (Some ''ni'')))"
    by code_simp
  have h2: "answerField EnToJa (poolFive ! 0) \<notin>
         answerField EnToJa ` set (candidatePool (answerField EnToJa) (poolFive ! 0) poolFive (Some ''ni''))"
    by code_simp
  from generateOptions_four [OF h1 h2, of keepOrder keepOrder keepOrder] h1 h2
  show ?thesis by blast
qed

section \<open>Properties of the quiz page\<close>

lemma quizInv_initial: "quizInv (initialQuizState sp)"
  by (simp add: quizInv_def initialQuizState_def)

lemma quizInv_fetchEffect: "quizInv s \<Longrightarrow> quizInv (fetchEffect s)"
  by (simp add: quizInv_def fetchEffect_def)

lemma quizInv_wordsFetched: "quizInv s \<Longrightarrow> quizInv (wordsFetched rnd1 rnd2 rnd3 ws s)"
  by (auto simp: quizInv_def wordsFetched_def Let_def timeLimitMs_def)

lemma quizInv_inFlight: "quizInv s \<Longrightarrow> quizInv (s\<lparr>fetchesInFlight := n\<rparr>)"
  by (simp add: quizInv_def)

lemma quizInv_startQuiz: "quizInv s \<Longrightarrow> quizInv (startQuiz sp rnd1 rnd2 rnd3 s)"
  by (auto simp: quizInv_def startQuiz_def Let_def timeLimitMs_def split: option.splits if_splits)

lemma quizInv_intervalTick: "quizInv s \<Longrightarrow> quizInv (intervalTick s)"
  by (simp add: quizInv_def intervalTick_def Let_def)

lemma quizInv_handleTimeUp: "quizInv s \<Longrightarrow> quizInv (handleTimeUp token s)"
  by (simp add: quizInv_def handleTimeUp_def Let_def split: option.splits)

lemma quizInv_timerEffect: "quizInv s \<Longrightarrow> quizInv (timerEffect token s)"
  by (simp add: timerEffect_def quizInv_handleTimeUp)

lemma quizInv_handleAnswerSelect: "quizInv s \<Longrightarrow> quizInv (handleAnswerSelect token a s)"
  by (simp add: quizInv_def handleAnswerSelect_def Let_def split: option.splits)

lemma quizInv_paramsEffects: "quizInv s \<Longrightarrow> quizInv (paramsEffects sp s)"
  by (simp add: quizInv_def paramsEffects_def Let_def)

lemma moveToNextQuestion_cases:
  assumes "0 \<le> currentIndex s"
  shows "moveToNextQuestion rnd1 rnd2 rnd3 s =
     (if int (length (words s)) \<le> currentIndex s + 1 then Inr (s\<lparr>quizFinished := True\<rparr>)
      else Inr (s\<lparr>previousCorrectAnswer := map_option (answerField (quizMode s)) (currentQuestion s),
                  currentIndex := currentIndex s + 1,
                  currentQuestion := Some (words s ! nat (currentIndex s + 1)),
                  options := generateOptions (quizMode s) rnd1 rnd2 rnd3
                               (words s ! nat (currentIndex s + 1)) (words s)
                               (map_option (answerField (quizMode s)) (currentQuestion s)),
                  selectedAnswer := None, isAnswered := False, isTimeUp := False,
                  hasTimeLimit := True, timeLeftMs := timeLimitMs\<rparr>))"
  using assms
  by (cases "currentQuestion s") (simp_all add: moveToNextQuestion_def index_js_def Let_def)

lemma quizInv_moveToNextQuestion:
  assumes "quizInv s"
  shows "\<exists>s'. moveToNextQuestion rnd1 rnd2 rnd3 s = Inr s' \<and> quizInv s'"
proof -
  from assms have nonneg: "0 \<le> currentIndex s" by (simp add: quizInv_def)
  show ?thesis
    using assms unfolding moveToNextQuestion_cases [OF nonneg]
    by (simp add: quizInv_def timeLimitMs_def)
qed

lemma quizInv_quizStep: "quizInv s \<Longrightarrow> quizInv (quizStep s e)"
proof (cases e)
  case (NextQuestionTimeout rnd1 rnd2 rnd3)
  assume inv: "quizInv s"
  then obtain s' where "moveToNextQuestion rnd1 rnd2 rnd3 s = Inr s'" "quizInv s'"
    using quizInv_moveToNextQuestion by blast
  with inv NextQuestionTimeout show ?thesis by simp
qed (simp_all add: quizInv_fetchEffect quizInv_wordsFetched quizInv_inFlight quizInv_startQuiz
      quizInv_intervalTick quizInv_timerEffect quizInv_handleAnswerSelect quizInv_paramsEffects)

lemma quizInv_foldl: "quizInv s \<Longrightarrow> quizInv (foldl quizStep s es)"
  by (induction es arbitrary: s) (simp_all add: quizInv_quizStep)

lemma quizInv_quizRun: "quizInv (quizRun sp es)"
  unfolding quizRun_def by (rule quizInv_foldl) (rule quizInv_initial)

text \<open>
  The bounds of the index are kept by every event of the quiz page but one: a response that
  arrives in a started quiz.
\<close>

lemma quizBounds_initial: "quizBounds (initialQuizState sp)"
  by (simp add: quizBounds_def initialQuizState_def)

lemma quizBounds_moveToNextQuestion:
  assumes "quizBounds s" and "quizStarted s"
  shows "\<exists>s'. moveToNextQuestion rnd1 rnd2 rnd3 s = Inr s' \<and> quizBounds s'
           \<and> words s' = words s
           \<and> (if currentIndex s < int (length (words s)) - 1
              then currentIndex s' = currentIndex s + 1 \<and> quizFinished s' = quizFinished s
              else currentIndex s' = currentIndex s \<and> quizFinished s')"
proof -
  from assms have nonneg: "0 \<le> currentIndex s" by (simp add: quizBounds_def)
  show ?thesis
    using assms unfolding moveToNextQuestion_cases [OF nonneg]
    by (simp add: quizBounds_def)
qed

lemma quizBounds_quizStep:
  assumes "quizBounds s" and "\<not> lateResponse s e"
  shows "quizBounds (quizStep s e)"
proof (cases e)
  case FetchEffect
  with assms(1) show ?thesis by (simp add: quizBounds_def fetchEffect_def)
next
  case (WordsFetched rnd1 rnd2 rnd3 ws)
  with assms(2) have "\<not> quizStarted s" by (simp add: lateResponse_def)
  with assms(1) WordsFetched show ?thesis
    by (auto simp: quizBounds_def wordsFetched_def Let_def)
next
  case (StartQuiz sp rnd1 rnd2 rnd3)
  with assms(1) show ?thesis
    by (auto simp: quizBounds_def startQuiz_def Let_def split: option.splits if_splits)
next
  case IntervalTick
  with assms(1) show ?thesis by (simp add: quizBounds_def intervalTick_def Let_def)
next
  case (TimerEffect token)
  with assms(1) show ?thesis
    by (simp add: quizBounds_def timerEffect_def handleTimeUp_def Let_def split: option.splits)
next
  case (AnswerSelect token a)
  with assms(1) show ?thesis
    by (simp add: quizBounds_def handleAnswerSelect_def Let_def split: option.splits)
next
  case (NextQuestionTimeout rnd1 rnd2 rnd3)
  show ?thesis
  proof (cases "quizStarted s")
    case True
    with assms(1) obtain s' where "moveToNextQuestion rnd1 rnd2 rnd3 s = Inr s'" "quizBounds s'"
      using quizBounds_moveToNextQuestion by blast
    with True NextQuestionTimeout show ?thesis by simp
  next
    case False
    with assms(1) NextQuestionTimeout show ?thesis by simp
  qed
next
  case (ParamsChanged sp)
  with assms(1) show ?thesis by (simp add: quizBounds_def paramsEffects_def Let_def)
qed

lemma calculateAccuracy_empty: "calculateAccuracy [] = 0"
  by (simp add: calculateAccuracy_def)

lemma moveToNextQuestion_excludes_previous:
  assumes "currentQuestion s = Some q"
    and "index_js (words s) (currentIndex s + 1) = Some w"
    and "answerField (quizMode s) q \<noteq> []"
    and "answerField (quizMode s) q \<noteq> answerField (quizMode s) w"
  shows "\<exists>s'. moveToNextQuestion rnd1 rnd2 rnd3 s = Inr s'
           \<and> currentQuestion s' = Some w
           \<and> previousCorrectAnswer s' = Some (answerField (quizMode s) q)
           \<and> answerField (quizMode s) q \<notin> set (options s')"
proof -
  from assms(2) have lt: "\<not> int (length (words s)) \<le> currentIndex s + 1"
    by (simp add: index_js_def split: if_splits)
  have "answerField (quizMode s) q
          \<notin> set (optionsFor (answerField (quizMode s)) rnd1 rnd2 rnd3 w (words s)
                   (Some (answerField (quizMode s) q)))"
    using assms(3,4) by (intro optionsFor_excludes [where p = "answerField (quizMode s) q"]) simp_all
  then show ?thesis
    using assms(1,2) lt
    by (simp add: moveToNextQuestion_def Let_def generateOptions_optionsFor)
qed


text \<open>
  C3, evaluated where the code departs from it. The first word of the pool has the empty
  string as its answer; after a wrong answer to it the quiz advances with keep-order draws.
  The exclusion passed on is that empty string, the first pass treats it like "no exclusion",
  and the options of the second question contain the answer of the first, although the pool
  had another value to offer in its place.
\<close>

theorem moveToNextQuestion_empty_previous_answer:
  "previousCorrectAnswer (quizRun demoParams demoAdvance) = Some []
   \<and> currentIndex (quizRun demoParams demoAdvance) = 1
   \<and> currentQuestion (quizRun demoParams demoAdvance) = Some (demoWord 2 ''two'' ''ni'')
   \<and> options (quizRun demoParams demoAdvance) = [''ni'', [], ''san'', ''yon'']"
  by code_simp

text \<open>
  C8. When the countdown of a started, unfinished quiz is at zero and the current question is
  unanswered, the timer effect runs \<open>handleTimeUp\<close>: one result is appended, with the empty
  string as the user's answer and marked incorrect; the save is called with "incorrect" (a
  request for a signed-in user, nothing for a guest) and the advance is set 2000 ms ahead.
  The state is then answered, so a further run of the effect, a click on an option and the
  interval add nothing.
\<close>

theorem handleTimeUp_records_miss:
  assumes "quizStarted s" and "\<not> quizFinished s" and "\<not> isAnswered s" and "hasTimeLimit s"
    and "timeLeftMs s \<le> 0" and "currentQuestion s = Some q"
  shows "\<exists>r. timerEffect token s = handleTimeUp token s
           \<and> results (timerEffect token s) = results s @ [r]
           \<and> r_wordId r = w_id q \<and> userAnswer r = [] \<and> \<not> isCorrect r
           \<and> correctAnswer r = answerField (quizMode s) q
           \<and> effects (timerEffect token s)
               = effects s @ saveUserWord token (w_id q) False @ [MoveToNextQuestionAfter 2000]
           \<and> saveUserWord (Some (c # t)) (w_id q) False
               = [Fetch \<lparr>authorization = Some (''Bearer '' @ c # t),
                         body = \<lparr>b_wordId = Some (w_id q), b_isCorrect = Some False,
                                  b_status = Some status_learning, b_studyType = None,
                                  b_isLearned = None\<rparr>\<rparr>]
           \<and> saveUserWord None (w_id q) False = []
           \<and> timerEffect token (timerEffect token s) = timerEffect token s
           \<and> handleAnswerSelect token a (timerEffect token s) = timerEffect token s
           \<and> quizStep (timerEffect token s) IntervalTick = timerEffect token s"
proof -
  have eff: "timerEffect token s = handleTimeUp token s"
    using assms(1-5) by (simp add: timerEffect_def)
  have answered: "isAnswered (handleTimeUp token s)"
    using assms(6) by (simp add: handleTimeUp_def Let_def)
  have "timerEffect token (handleTimeUp token s) = handleTimeUp token s"
    using answered by (simp add: timerEffect_def)
  moreover have "handleAnswerSelect token a (handleTimeUp token s) = handleTimeUp token s"
    using answered by (simp add: handleAnswerSelect_def)
  moreover have "quizStep (handleTimeUp token s) IntervalTick = handleTimeUp token s"
    using answered by (simp add: intervalInstalled_def)
  moreover have "saveUserWord (Some (c # t)) (w_id q) False
               = [Fetch \<lparr>authorization = Some (''Bearer '' @ c # t),
                         body = \<lparr>b_wordId = Some (w_id q), b_isCorrect = Some False,
                                  b_status = Some status_learning, b_studyType = None,
                                  b_isLearned = None\<rparr>\<rparr>]"
    by (simp add: saveUserWord_def truthy_string_def)
  moreover have "saveUserWord None (w_id q) False = []"
    by (simp add: saveUserWord_def truthy_string_def)
  moreover have "\<exists>r. results (handleTimeUp token s) = results s @ [r]
           \<and> r_wordId r = w_id q \<and> userAnswer r = [] \<and> \<not> isCorrect r
           \<and> correctAnswer r = answerField (quizMode s) q"
    using assms(6) by (simp add: handleTimeUp_def Let_def)
  moreover have "effects (handleTimeUp token s)
               = effects s @ saveUserWord token (w_id q) False @ [MoveToNextQuestionAfter 2000]"
    using assms(6) by (simp add: handleTimeUp_def Let_def)
  ultimately show ?thesis
    unfolding eff by blast
qed


theorem handleTimeUp_records_miss_witness:
  "quizStarted (quizTicks 100 demoQuiz) \<and> \<not> quizFinished (quizTicks 100 demoQuiz)
   \<and> \<not> isAnswered (quizTicks 100 demoQuiz) \<and> hasTimeLimit (quizTicks 100 demoQuiz)
   \<and> timeLeftMs (quizTicks 100 demoQuiz) \<le> 0
   \<and> currentQuestion (quizTicks 100 demoQuiz) = Some (demoWord 1 ''one'' ''ichi'')
   \<and> (\<exists>r. results (timerEffect None (quizTicks 100 demoQuiz)) = [r] \<and> r_wordId r = 1
            \<and> userAnswer r = [] \<and> \<not> isCorrect r \<and> correctAnswer r = ''ichi'')
   \<and> effects (timerEffect None (quizTicks 100 demoQuiz)) = [MoveToNextQuestionAfter 2000]"
proof -
  let ?s = "quizTicks 100 demoQuiz"
  have h: "quizStarted ?s" "\<not> quizFinished ?s" "\<not> isAnswered ?s" "hasTimeLimit ?s"
    "timeLeftMs ?s \<le> 0" "currentQuestion ?s = Some (demoWord 1 ''one'' ''ichi'')"
    by code_simp+
  have v: "results ?s = []" "effects ?s = []" "quizMode ?s = EnToJa"
    by code_simp+
  from handleTimeUp_records_miss
         [OF h, where token = None and c = "CHR ''x''" and t = "[]" and a = "[]"]
  obtain r where r: "results (timerEffect None ?s) = results ?s @ [r]"
      "r_wordId r = w_id (demoWord 1 ''one'' ''ichi'')" "userAnswer r = []" "\<not> isCorrect r"
      "correctAnswer r = answerField (quizMode ?s) (demoWord 1 ''one'' ''ichi'')"
      "effects (timerEffect None ?s)
         = effects ?s @ saveUserWord None (w_id (demoWord 1 ''one'' ''ichi'')) False
             @ [MoveToNextQuestionAfter 2000]"
    by blast
  have "results (timerEffect None ?s) = [r]"
    using r(1) v(1) by simp
  moreover have "r_wordId r = 1" "correctAnswer r = ''ichi''"
    using r(2,5) v(3) by (simp_all add: demoWord_def answerField_def)
  moreover have "effects (timerEffect None ?s) = [MoveToNextQuestionAfter 2000]"
    using r(6) v(2) by (simp add: saveUserWord_def truthy_string_def)
  ultimately show ?thesis
    using h r(3,4) by blast
qed

text \<open>
  The percentage in the arithmetic of doubles: the quotient of the two counts is at most 1
  and stays so after rounding, its product with 100 is at most 100 and stays so after
  rounding, since 1 and 100 are doubles themselves.
\<close>

lemma pow2_pos: "0 < pow2 e"
  by (simp add: pow2_def)

lemma roundTiesToEven_le: "x \<le> of_int N \<Longrightarrow> roundTiesToEven x \<le> N"
proof -
  assume le: "x \<le> of_int N"
  then have fl: "\<lfloor>x\<rfloor> \<le> N" by (simp add: floor_le_iff)
  show ?thesis
  proof (cases "\<lfloor>x\<rfloor> = N")
    case True
    then have "of_int N \<le> x" by (metis of_int_floor_le)
    with le have "x = of_int N" by simp
    then show ?thesis by (simp add: roundTiesToEven_def)
  next
    case False
    with fl have "\<lfloor>x\<rfloor> + 1 \<le> N" by simp
    then show ?thesis by (simp add: roundTiesToEven_def Let_def)
  qed
qed

lemma roundTiesToEven_nonneg: "0 \<le> x \<Longrightarrow> 0 \<le> roundTiesToEven x"
proof -
  assume "0 \<le> x"
  then have "0 \<le> \<lfloor>x\<rfloor>" by simp
  then show ?thesis by (simp add: roundTiesToEven_def Let_def)
qed

lemma binade_le:
  assumes "0 < q" and "q \<le> 128"
  shows "binade q \<le> 7"
proof -
  obtain a b where ab: "quotient_of q = (a, b)" by (cases "quotient_of q")
  then have b: "0 < b" by (rule quotient_of_denom_pos)
  have q: "q = of_int a / of_int b" using ab by (rule quotient_of_div)
  from assms(2) b have "of_int a \<le> (128::rat) * of_int b"
    unfolding q by (simp add: pos_divide_le_eq)
  then have "(of_int a :: rat) \<le> of_int (b * 2 ^ 7)" by (simp add: mult.commute)
  then have a: "a \<le> b * 2 ^ 7" by (simp only: of_int_le_iff)
  have "b * 2 ^ 7 < 2 ^ nat (bitlen (b * 2 ^ 7))"
    using bitlen_bounds [of "b * 2 ^ 7"] b by simp
  with a have "a < 2 ^ nat (bitlen (b * 2 ^ 7))" by linarith
  then have "bitlen a \<le> bitlen (b * 2 ^ 7)"
    using bitlen_le_iff_power [of a "bitlen (b * 2 ^ 7)"] bitlen_nonneg [of "b * 2 ^ 7"] by simp
  also have "\<dots> = bitlen b + 7" using bitlen_pow2 [of b 7] b by simp
  finally have "bitlen a - bitlen b \<le> 7" by simp
  then show ?thesis by (simp add: binade_def ab Let_def)
qed

lemma toDouble_nonneg: "0 \<le> q \<Longrightarrow> 0 \<le> toDouble q"
proof (cases "q = 0")
  case True
  then show ?thesis by (simp add: toDouble_def)
next
  case False
  assume "0 \<le> q"
  with False have pos: "0 < q" by simp
  have "0 \<le> roundTiesToEven (\<bar>q\<bar> / pow2 (max (binade \<bar>q\<bar>) (- 1022) - 52))"
    using pos pow2_pos by (intro roundTiesToEven_nonneg) (simp add: less_imp_le)
  then show ?thesis
    using pos pow2_pos [of "max (binade \<bar>q\<bar>) (- 1022) - 52"]
    by (simp add: toDouble_def Let_def less_imp_le)
qed

lemma toDouble_le:
  assumes "0 < q" and "q \<le> of_int M" and "q \<le> 128"
  shows "toDouble q \<le> of_int M"
proof -
  define e where "e = max (binade q) (- 1022)"
  define k where "k = nat (52 - e)"
  define m where "m = roundTiesToEven (q / pow2 (e - 52))"
  have "binade q \<le> 7" using assms(1,3) by (rule binade_le)
  then have e: "e \<le> 7" by (simp add: e_def)
  then have ulp: "pow2 (e - 52) = 1 / 2 ^ k"
    by (simp add: pow2_def k_def)
  have "q / pow2 (e - 52) = q * 2 ^ k"
    by (simp add: ulp)
  also have "\<dots> \<le> of_int M * 2 ^ k"
    using assms(2) by (simp add: mult_right_mono)
  also have "\<dots> = of_int (M * 2 ^ k)" by simp
  finally have "m \<le> M * 2 ^ k"
    unfolding m_def by (rule roundTiesToEven_le)
  then have "(of_int m :: rat) \<le> of_int (M * 2 ^ k)"
    by (simp only: of_int_le_iff)
  then have "of_int m / 2 ^ k \<le> (of_int M :: rat)"
    by (simp add: pos_divide_le_eq)
  moreover have "toDouble q = of_int m * pow2 (e - 52)"
    using assms(1) by (simp add: toDouble_def Let_def e_def m_def)
  ultimately show ?thesis by (simp add: ulp)
qed

lemma calculateAccuracy_bounds: "0 \<le> calculateAccuracy rs \<and> calculateAccuracy rs \<le> 100"
proof (cases "rs = []")
  case True
  then show ?thesis by (simp add: calculateAccuracy_def)
next
  case False
  define c where "c = length (filter isCorrect rs)"
  define n where "n = length rs"
  have n: "0 < n" using False by (simp add: n_def)
  have cn: "c \<le> n" by (simp add: c_def n_def)
  define q :: rat where "q = of_nat c / of_nat n"
  have q0: "0 \<le> q" by (simp add: q_def)
  have q1: "q \<le> 1" using cn n by (simp add: q_def)
  have d1_0: "0 \<le> toDouble q" using q0 by (rule toDouble_nonneg)
  have d1_1: "toDouble q \<le> 1"
  proof (cases "q = 0")
    case True
    then show ?thesis by (simp add: toDouble_def)
  next
    case False
    with q0 have "0 < q" by simp
    moreover have "q \<le> of_int 1" using q1 by simp
    moreover have "q \<le> 128" using q1 by simp
    ultimately have "toDouble q \<le> of_int 1" by (rule toDouble_le)
    then show ?thesis by simp
  qed
  define z where "z = toDouble q * 100"
  have z0: "0 \<le> z" using d1_0 by (simp add: z_def)
  have z1: "z \<le> 100" using d1_1 by (simp add: z_def)
  have d2_0: "0 \<le> toDouble z" using z0 by (rule toDouble_nonneg)
  have d2_1: "toDouble z \<le> 100"
  proof (cases "z = 0")
    case True
    then show ?thesis by (simp add: toDouble_def)
  next
    case False
    with z0 have "0 < z" by simp
    moreover have "z \<le> of_int 100" using z1 by simp
    moreover have "z \<le> 128" using z1 by simp
    ultimately have "toDouble z \<le> of_int 100" by (rule toDouble_le)
    then show ?thesis by simp
  qed
  have eq: "calculateAccuracy rs = Math_round (toDouble z)"
    using False by (simp add: calculateAccuracy_def js_mul_def js_div_def Let_def z_def q_def
        c_def n_def)
  have "0 \<le> \<lfloor>toDouble z + 1 / 2\<rfloor>" using d2_0 by simp
  moreover have "\<lfloor>toDouble z + 1 / 2\<rfloor> \<le> 100"
    using d2_1 by (simp add: floor_le_iff)
  ultimately show ?thesis by (simp add: eq Math_round_def)
qed

text \<open>
  C10, evaluated where the code departs from it. With 23 correct results out of 40 the exact
  percentage is 57.5, which rounds to 58. The code divides first: the double nearest to
  23/40 lies below it, the product with 100 is the double 57.49999999999999, and
  \<open>Math.round\<close> returns 57. The other parts of the claim hold for the code: the empty
  list yields 0 without a division, and every result lies between 0 and 100.
\<close>

theorem calculateAccuracy_23_of_40:
  "calculateAccuracy (replicate 23 (demoResult True) @ replicate 17 (demoResult False)) = 57
   \<and> exactPercentage 23 40 = 58"
  by code_simp

section \<open>Properties of the flashcard page\<close>

lemma flashInv_initial: "flashInv (initialFlashState l saved)"
  by (simp add: flashInv_def initialFlashState_def)

lemma flashInv_fcFetchEffect: "flashInv s \<Longrightarrow> flashInv (fcFetchEffect s)"
  by (simp add: flashInv_def fcFetchEffect_def)

lemma flashInv_fcWordsFetched: "flashInv s \<Longrightarrow> flashInv (fcWordsFetched ws s)"
  by (simp add: flashInv_def fcWordsFetched_def)

lemma flashInv_inFlight: "flashInv s \<Longrightarrow> flashInv (s\<lparr>fc_fetchesInFlight := n\<rparr>)"
  by (simp add: flashInv_def)

lemma flashInv_handleLevelChange: "flashInv s \<Longrightarrow> flashInv (handleLevelChange l s)"
  by (auto simp: flashInv_def handleLevelChange_def split: if_splits)

lemma flashInv_startSession: "flashInv s \<Longrightarrow> flashInv (startSession s)"
  by (auto simp: flashInv_def startSession_def split: if_splits)

lemma flashInv_nextCard: "flashInv s \<Longrightarrow> flashInv (nextCard s)"
  by (auto simp: flashInv_def nextCard_def clearTimeUpTimer_def Let_def split: if_splits)

lemma flashInv_prevCard: "flashInv s \<Longrightarrow> flashInv (prevCard s)"
  by (auto simp: flashInv_def prevCard_def clearTimeUpTimer_def Let_def split: if_splits)

lemma flashInv_markAsStudied: "flashInv s \<Longrightarrow> flashInv (markAsStudied now token s)"
  by (auto simp: flashInv_def markAsStudied_def markWord_def Let_def split: option.splits if_splits)

lemma flashInv_playAgain: "flashInv s \<Longrightarrow> flashInv (playAgain s)"
  by (auto simp: flashInv_def playAgain_def clearTimeUpTimer_def split: if_splits)

lemma flashInv_navTimeout: "flashInv s \<Longrightarrow> flashInv (navTimeout s)"
  by (auto simp: flashInv_def navTimeout_def split: if_splits)

lemma flashInv_tickCallback:
  "flashInv s \<Longrightarrow> effectTimer s = TickTimer \<Longrightarrow> flashInv (tickCallback s)"
  by (auto simp: flashInv_def tickCallback_def split: if_splits)

text \<open>
  A run of the timer effect that sets the time-up timeout changes \<open>isTimeUp\<close>; the run that
  follows at once clears the timeout and sets none.
\<close>

lemma flashInv_timerEffectRun: "flashInv s \<Longrightarrow> flashInv (flashStep s TimerEffectRun)"
  by (auto simp: flashInv_def flashTimerEffect_def clearTimeUpTimer_def Let_def split: if_splits)

lemma flashInv_cardChangedEffect: "flashInv s \<Longrightarrow> flashInv (cardChangedEffect s)"
  by (auto simp: flashInv_def cardChangedEffect_def clearTimeUpTimer_def split: if_splits)

lemma flashInv_flipResetEffect: "flashInv s \<Longrightarrow> flashInv (flipResetEffect s)"
  by (auto simp: flashInv_def flipResetEffect_def split: if_splits)

lemma flashInv_flip: "flashInv s \<Longrightarrow> flashInv (s\<lparr>isFlipped := b\<rparr>)"
  by (simp add: flashInv_def)

lemma flashInv_flashStep: "flashInv s \<Longrightarrow> flashInv (flashStep s e)"
proof (cases e)
  case TimerFired
  assume inv: "flashInv s"
  then have "effectTimer s \<noteq> TimeUpTimer" by (simp add: flashInv_def)
  with inv show ?thesis
    unfolding TimerFired
    by (cases "effectTimer s") (simp_all add: flashInv_tickCallback)
next
  case TimerEffectRun
  assume "flashInv s"
  then show ?thesis
    unfolding TimerEffectRun by (rule flashInv_timerEffectRun)
qed (simp_all add: flashInv_fcFetchEffect flashInv_fcWordsFetched flashInv_inFlight
      flashInv_handleLevelChange flashInv_startSession flashInv_nextCard flashInv_prevCard
      flashInv_markAsStudied flashInv_playAgain flashInv_navTimeout
      flashInv_cardChangedEffect flashInv_flipResetEffect flashInv_flip)

lemma flashInv_foldl: "flashInv s \<Longrightarrow> flashInv (foldl flashStep s es)"
  by (induction es arbitrary: s) (simp_all add: flashInv_flashStep)

lemma flashInv_flashRun: "flashInv (flashRun l saved es)"
  unfolding flashRun_def by (rule flashInv_foldl) (rule flashInv_initial)

lemma nextCard_locked: "isNavigating s \<Longrightarrow> nextCard s = s"
  by (simp add: nextCard_def)

lemma prevCard_locked: "isNavigating s \<Longrightarrow> prevCard s = s"
  by (simp add: prevCard_def)

lemma nextCard_free:
  assumes "\<not> isNavigating s"
  shows "fc_words (nextCard s) = fc_words s"
    and "fc_currentIndex (nextCard s)
           = (if fc_currentIndex s < int (length (fc_words s)) - 1 then fc_currentIndex s + 1 else 0)"
    and "sessionFinished (nextCard s)
           = (if fc_currentIndex s < int (length (fc_words s)) - 1 then sessionFinished s else True)"
    and "sessionStarted (nextCard s) = sessionStarted s"
    and "isNavigating (nextCard s)" and "\<not> timeUpTimerRef (nextCard s)"
  using assms by (simp_all add: nextCard_def clearTimeUpTimer_def Let_def)

lemma prevCard_free:
  assumes "\<not> isNavigating s"
  shows "fc_words (prevCard s) = fc_words s"
    and "fc_currentIndex (prevCard s)
           = (if 0 < fc_currentIndex s then fc_currentIndex s - 1 else fc_currentIndex s)"
    and "sessionFinished (prevCard s) = sessionFinished s"
    and "sessionStarted (prevCard s) = sessionStarted s"
    and "isNavigating (prevCard s)" and "\<not> timeUpTimerRef (prevCard s)"
  using assms by (simp_all add: prevCard_def clearTimeUpTimer_def Let_def)

lemma timeUpCallback_index:
  "fc_currentIndex (timeUpCallback s)
     = (if fc_currentIndex s < int (length (fc_words s)) - 1 then fc_currentIndex s + 1 else 0)"
  "sessionFinished (timeUpCallback s)
     = (if fc_currentIndex s < int (length (fc_words s)) - 1 then sessionFinished s else True)"
  by (simp_all add: timeUpCallback_def Let_def)

lemma flashTimerEffect_index: "fc_currentIndex (flashTimerEffect s) = fc_currentIndex s"
  by (simp add: flashTimerEffect_def clearTimeUpTimer_def Let_def)

lemma flashTimerEffect_frame:
  "sessionStarted (flashTimerEffect s) = sessionStarted s"
  "fc_words (flashTimerEffect s) = fc_words s"
  by (simp_all add: flashTimerEffect_def clearTimeUpTimer_def Let_def)

text \<open>
  The bounds of the index are kept by every event of the flashcard page but one: a response
  that arrives in a started session. The advance and the retreat keep them: below the last
  index the advance adds one, at the last index it finishes the session and puts the index
  back to 0; the retreat stays at 0 and else subtracts one.
\<close>

lemma flashBounds_initial: "flashBounds (initialFlashState l saved)"
  by (simp add: flashBounds_def initialFlashState_def)

lemma flashBounds_nextCard: "flashBounds s \<Longrightarrow> sessionStarted s \<Longrightarrow> flashBounds (nextCard s)"
  by (cases "isNavigating s") (auto simp: flashBounds_def nextCard_locked nextCard_free)

lemma flashBounds_prevCard: "flashBounds s \<Longrightarrow> sessionStarted s \<Longrightarrow> flashBounds (prevCard s)"
  by (cases "isNavigating s") (auto simp: flashBounds_def prevCard_locked prevCard_free)

lemma flashBounds_flashStep:
  assumes "flashBounds s" and "flashInv s" and "\<not> fcLateResponse s e"
  shows "flashBounds (flashStep s e)"
proof (cases e)
  case FcFetchEffect
  with assms(1) show ?thesis by (simp add: flashBounds_def fcFetchEffect_def)
next
  case (FcWordsFetched ws)
  with assms(3) have "\<not> sessionStarted s" by (simp add: fcLateResponse_def)
  with assms(1) FcWordsFetched show ?thesis
    by (simp add: flashBounds_def fcWordsFetched_def)
next
  case (LevelChange l)
  with assms(1) show ?thesis by (simp add: flashBounds_def handleLevelChange_def)
next
  case StartSession
  with assms(1) show ?thesis by (simp add: flashBounds_def startSession_def)
next
  case NextCard
  with assms(1) show ?thesis by (simp add: viewOf_def flashBounds_nextCard)
next
  case PrevCard
  with assms(1) show ?thesis by (simp add: viewOf_def flashBounds_prevCard)
next
  case FlipCard
  with assms(1) show ?thesis by (simp add: flashBounds_def)
next
  case (MarkAsStudied now token)
  with assms(1) show ?thesis
    by (simp add: flashBounds_def markAsStudied_def markWord_def Let_def split: option.splits)
next
  case PlayAgain
  with assms(1) show ?thesis by (simp add: flashBounds_def playAgain_def clearTimeUpTimer_def)
next
  case NavTimeout
  with assms(1) show ?thesis by (simp add: flashBounds_def navTimeout_def)
next
  case TimerFired
  from assms(2) have "effectTimer s \<noteq> TimeUpTimer" by (simp add: flashInv_def)
  with assms(1) show ?thesis
    unfolding TimerFired
    by (cases "effectTimer s") (simp_all add: flashBounds_def tickCallback_def)
next
  case TimerEffectRun
  with assms(1) show ?thesis
    by (simp add: flashBounds_def Let_def flashTimerEffect_index flashTimerEffect_frame)
next
  case CardChangedEffectRun
  with assms(1) show ?thesis
    by (simp add: flashBounds_def cardChangedEffect_def clearTimeUpTimer_def)
next
  case FlipResetEffectRun
  with assms(1) show ?thesis by (simp add: flashBounds_def flipResetEffect_def)
qed

text \<open>
  C4, evaluated where the code departs from it. On both pages five words arrive, another
  level is chosen (which sends a second request), the session is started on the five words
  while that request is in flight, and the index is moved to 3. Then the response arrives with
  two words. The fetch effect tests the started flag only when it starts; what it does with
  the response is not guarded, so the words are replaced: the session is started and not
  finished, the index is 3 and there are 2 words.
\<close>

theorem late_response_out_of_bounds:
  "quizStarted (quizRun demoParams lateQuizRun) \<and> \<not> quizFinished (quizRun demoParams lateQuizRun)
   \<and> currentIndex (quizRun demoParams lateQuizRun) = 3
   \<and> length (words (quizRun demoParams lateQuizRun)) = 2
   \<and> sessionStarted (flashRun ''all'' Map.empty lateFlashRun)
   \<and> \<not> sessionFinished (flashRun ''all'' Map.empty lateFlashRun)
   \<and> fc_currentIndex (flashRun ''all'' Map.empty lateFlashRun) = 3
   \<and> length (fc_words (flashRun ''all'' Map.empty lateFlashRun)) = 2"
  by code_simp

lemma locked_index_flashStep:
  assumes "effectTimer s \<noteq> TimeUpTimer" and "sessionStarted s" and "\<not> sessionFinished s"
    and "isNavigating s"
  shows "fc_currentIndex (flashStep s e) = fc_currentIndex s"
proof (cases e)
  case TimerFired
  with assms(1) show ?thesis
    by (cases "effectTimer s") (simp_all add: tickCallback_def)
next
  case TimerEffectRun
  then show ?thesis by (simp add: Let_def flashTimerEffect_index)
next
  case (MarkAsStudied now token)
  then show ?thesis
    by (simp add: markAsStudied_def markWord_def Let_def split: option.splits)
qed (use assms in \<open>simp_all add: viewOf_def nextCard_locked prevCard_locked fcFetchEffect_def
      fcWordsFetched_def navTimeout_def cardChangedEffect_def clearTimeUpTimer_def
      flipResetEffect_def\<close>)

text \<open>
  C6. In every state that a run of the flashcard page reaches, no time-up timeout is pending:
  the run of the timer effect that sets it changes \<open>isTimeUp\<close>, a dependency of that effect,
  and the run this causes clears it, so the time-up callback is not delivered next to a
  request by the buttons. While the navigation flag is set, an advance and a retreat by the
  buttons change nothing, and in a started, unfinished session no event of the page, a timer
  included, moves the index. While the flag is not set, an advance and a retreat set it.
\<close>

theorem navigation_lock:
  fixes lvl saved fes e
  defines "f \<equiv> flashRun lvl saved fes"
  shows "effectTimer f \<noteq> TimeUpTimer
         \<and> (if isNavigating f then nextCard f = f \<and> prevCard f = f
            else isNavigating (nextCard f) \<and> isNavigating (prevCard f))
         \<and> (sessionStarted f \<and> \<not> sessionFinished f \<and> isNavigating f
              \<longrightarrow> fc_currentIndex (flashStep f e) = fc_currentIndex f)"
proof -
  have "flashInv f"
    unfolding f_def by (rule flashInv_flashRun)
  then have noexp: "effectTimer f \<noteq> TimeUpTimer"
    by (simp add: flashInv_def)
  have lock: "if isNavigating f then nextCard f = f \<and> prevCard f = f
              else isNavigating (nextCard f) \<and> isNavigating (prevCard f)"
    by (simp add: nextCard_locked prevCard_locked nextCard_free prevCard_free)
  have "fc_currentIndex (flashStep f e) = fc_currentIndex f"
    if "sessionStarted f \<and> \<not> sessionFinished f \<and> isNavigating f"
    using noexp that by (intro locked_index_flashStep) simp_all
  with noexp lock show ?thesis by blast
qed

theorem navigation_lock_witness:
  "sessionStarted (flashRun ''all'' Map.empty demoLocked)
   \<and> \<not> sessionFinished (flashRun ''all'' Map.empty demoLocked)
   \<and> isNavigating (flashRun ''all'' Map.empty demoLocked)
   \<and> fc_currentIndex (flashRun ''all'' Map.empty demoLocked) = 1
   \<and> nextCard (flashRun ''all'' Map.empty demoLocked) = flashRun ''all'' Map.empty demoLocked
   \<and> fc_currentIndex (flashStep (flashRun ''all'' Map.empty demoLocked) NextCard) = 1
   \<and> fc_currentIndex (flashStep (flashRun ''all'' Map.empty demoLocked) TimerFired) = 1
   \<and> effectTimer (flashRun ''all'' Map.empty demoLocked) \<noteq> TimeUpTimer"
proof -
  let ?f = "flashRun ''all'' Map.empty demoLocked"
  have h: "sessionStarted ?f" "\<not> sessionFinished ?f" "isNavigating ?f"
    and idx: "fc_currentIndex ?f = 1"
    by code_simp+
  from navigation_lock [of "''all''" Map.empty demoLocked NextCard] h
  have a: "effectTimer ?f \<noteq> TimeUpTimer" "nextCard ?f = ?f"
    "fc_currentIndex (flashStep ?f NextCard) = fc_currentIndex ?f"
    by simp_all
  from navigation_lock [of "''all''" Map.empty demoLocked TimerFired] h
  have b: "fc_currentIndex (flashStep ?f TimerFired) = fc_currentIndex ?f"
    by simp
  from h idx a b show ?thesis by simp
qed

section \<open>Properties of the countdowns\<close>

lemma quizTicks_Suc: "quizTicks (Suc k) s = quizStep (quizTicks k s) IntervalTick"
proof -
  have "replicate (Suc k) IntervalTick = replicate k IntervalTick @ [IntervalTick]"
    by (simp add: replicate_append_same)
  then show ?thesis
    unfolding quizTicks_def by (simp only: foldl_append foldl_Cons foldl_Nil)
qed

lemma concat_replicate_Suc_right: "concat (replicate (Suc k) xs) = concat (replicate k xs) @ xs"
  by (induction k) simp_all

lemma flashTicks_Suc:
  "flashTicks (Suc k) s = flashStep (flashStep (flashTicks k s) TimerEffectRun) TimerFired"
  unfolding flashTicks_def
  by (simp only: concat_replicate_Suc_right foldl_append foldl_Cons foldl_Nil)

lemma quizTicks_fields:
  assumes "quizStarted q" and "\<not> quizFinished q" and "\<not> isAnswered q" and "hasTimeLimit q"
    and "timeLeftMs q = 100 * int n" and "\<not> isTimeUp q" and "k \<le> n"
  shows "timeLeftMs (quizTicks k q) = 100 * int (n - k)
         \<and> isTimeUp (quizTicks k q) = (k = n \<and> 0 < n)
         \<and> quizStarted (quizTicks k q) \<and> \<not> quizFinished (quizTicks k q)
         \<and> \<not> isAnswered (quizTicks k q) \<and> hasTimeLimit (quizTicks k q)"
  using assms(7)
proof (induction k)
  case 0
  with assms(1-6) show ?case by (auto simp: quizTicks_def)
next
  case (Suc k)
  then have IH: "timeLeftMs (quizTicks k q) = 100 * int (n - k)"
    "isTimeUp (quizTicks k q) = (k = n \<and> 0 < n)"
    "quizStarted (quizTicks k q)" "\<not> quizFinished (quizTicks k q)"
    "\<not> isAnswered (quizTicks k q)" "hasTimeLimit (quizTicks k q)"
    by simp_all
  from Suc.prems have pos: "0 < n - k" by simp
  then have inst: "intervalInstalled (quizTicks k q)"
    using IH by (simp add: intervalInstalled_def)
  have left: "100 * int (n - k) - 100 = 100 * int (n - Suc k)"
    using Suc.prems by (simp add: of_nat_diff)
  show ?case
    using IH inst Suc.prems left
    by (auto simp: quizTicks_Suc intervalTick_def Let_def max_def)
qed

lemma flashTicks_fields:
  assumes "sessionStarted f" and "fc_currentIndex f < int (length (fc_words f))"
    and "timeLeft f = int m" and "\<not> fc_isTimeUp f" and "k \<le> m"
  shows "timeLeft (flashTicks k f) = int (m - k)
         \<and> \<not> fc_isTimeUp (flashTicks k f)
         \<and> sessionStarted (flashTicks k f)
         \<and> fc_currentIndex (flashTicks k f) = fc_currentIndex f
         \<and> fc_words (flashTicks k f) = fc_words f"
  using assms(5)
proof (induction k)
  case 0
  with assms(1-4) show ?case by (simp add: flashTicks_def)
next
  case (Suc k)
  then have IH: "timeLeft (flashTicks k f) = int (m - k)"
    "\<not> fc_isTimeUp (flashTicks k f)"
    "sessionStarted (flashTicks k f)"
    "fc_currentIndex (flashTicks k f) = fc_currentIndex f"
    "fc_words (flashTicks k f) = fc_words f"
    by simp_all
  from Suc.prems have pos: "0 < int (m - k)" by simp
  have left: "int (m - k) - 1 = int (m - Suc k)"
    using Suc.prems by (simp add: of_nat_diff)
  have eff: "flashTimerEffect (flashTicks k f)
               = (clearTimeUpTimer ((flashTicks k f)\<lparr>effectTimer := NoTimer\<rparr>))
                   \<lparr>fc_isTimeUp := False, effectTimer := TickTimer\<rparr>"
    using IH pos assms(2) by (simp add: flashTimerEffect_def Let_def)
  have same: "fc_isTimeUp (flashTimerEffect (flashTicks k f)) = fc_isTimeUp (flashTicks k f)"
    using IH(2) by (simp add: eff)
  have run: "flashStep (flashTicks k f) TimerEffectRun = flashTimerEffect (flashTicks k f)"
    using same by (simp add: Let_def)
  have "flashTicks (Suc k) f = tickCallback (flashTimerEffect (flashTicks k f))"
    unfolding flashTicks_Suc run by (simp add: eff)
  then show ?case
    using IH left
    by (simp add: eff tickCallback_def clearTimeUpTimer_def)
qed

text \<open>
  C7. Quiz: from a running, unanswered question with \<open>100 * n\<close> ms left (\<open>n > 0\<close>) and the
  time-up flag unset, the first \<open>n - 1\<close> ticks leave a positive remainder and the flag unset,
  the \<open>n\<close>-th tick reaches 0 and sets the flag, and a further tick does not occur; a tick never
  goes below 0, and no run of the page reaches a negative remainder. Flashcards: from a started session with \<open>m\<close> seconds left (\<open>m > 0\<close>) and the flag
  unset, \<open>m\<close> rounds of the timer effect and its one-second timeout reach 0 with the flag
  unset; the run of the effect at 0 sets the flag; the run after it keeps the flag and
  the 0 and leaves no timeout pending, so no further tick occurs; the tick itself subtracts
  one without a bound, but it is only set with time left, and no run of the page reaches a
  negative remainder.
\<close>

theorem countdown_expires_once:
  assumes "quizStarted q" and "\<not> quizFinished q" and "\<not> isAnswered q" and "hasTimeLimit q"
    and "timeLeftMs q = 100 * int n" and "\<not> isTimeUp q" and "0 < n"
    and "sessionStarted f" and "fc_currentIndex f < int (length (fc_words f))"
    and "timeLeft f = int m" and "\<not> fc_isTimeUp f" and "0 < m"
  shows "(\<forall>k<n. timeLeftMs (quizTicks k q) = 100 * int (n - k) \<and> \<not> isTimeUp (quizTicks k q))
         \<and> timeLeftMs (quizTicks n q) = 0 \<and> isTimeUp (quizTicks n q)
         \<and> quizStep (quizTicks n q) IntervalTick = quizTicks n q
         \<and> timeLeftMs (intervalTick q') = max 0 (timeLeftMs q' - 100)
         \<and> 0 \<le> timeLeftMs (quizRun sp qes)
         \<and> 0 \<le> timeLeft (flashRun lvl saved fes)
         \<and> (\<forall>k\<le>m. timeLeft (flashTicks k f) = int (m - k) \<and> \<not> fc_isTimeUp (flashTicks k f))
         \<and> timeLeft (flashTimerEffect (flashTicks m f)) = 0
         \<and> fc_isTimeUp (flashTimerEffect (flashTicks m f))
         \<and> timeLeft (flashTimerEffect (flashTimerEffect (flashTicks m f))) = 0
         \<and> fc_isTimeUp (flashTimerEffect (flashTimerEffect (flashTicks m f)))
         \<and> effectTimer (flashTimerEffect (flashTimerEffect (flashTicks m f))) = NoTimer
         \<and> flashStep (flashTimerEffect (flashTimerEffect (flashTicks m f))) TimerFired
             = flashTimerEffect (flashTimerEffect (flashTicks m f))"
proof -
  have quiz: "timeLeftMs (quizTicks k q) = 100 * int (n - k)
         \<and> isTimeUp (quizTicks k q) = (k = n \<and> 0 < n)
         \<and> quizStarted (quizTicks k q) \<and> \<not> quizFinished (quizTicks k q)
         \<and> \<not> isAnswered (quizTicks k q) \<and> hasTimeLimit (quizTicks k q)" if "k \<le> n" for k
    using assms(1-6) that by (rule quizTicks_fields)
  have q1: "\<forall>k<n. timeLeftMs (quizTicks k q) = 100 * int (n - k) \<and> \<not> isTimeUp (quizTicks k q)"
    using quiz by auto
  have q2: "timeLeftMs (quizTicks n q) = 0" "isTimeUp (quizTicks n q)"
    using quiz [of n] assms(7) by simp_all
  have q3: "quizStep (quizTicks n q) IntervalTick = quizTicks n q"
    using q2(1) by (simp add: intervalInstalled_def)
  have q4: "timeLeftMs (intervalTick q') = max 0 (timeLeftMs q' - 100)"
    by (simp add: intervalTick_def Let_def)
  have q5: "0 \<le> timeLeftMs (quizRun sp qes)"
    using quizInv_quizRun [of sp qes] by (simp add: quizInv_def)
  have f0: "0 \<le> timeLeft (flashRun lvl saved fes)"
    using flashInv_flashRun [of lvl saved fes] by (simp add: flashInv_def)
  have flash: "timeLeft (flashTicks k f) = int (m - k)
         \<and> \<not> fc_isTimeUp (flashTicks k f)
         \<and> sessionStarted (flashTicks k f)
         \<and> fc_currentIndex (flashTicks k f) = fc_currentIndex f
         \<and> fc_words (flashTicks k f) = fc_words f" if "k \<le> m" for k
    using assms(8-11) that by (rule flashTicks_fields)
  have f1: "\<forall>k\<le>m. timeLeft (flashTicks k f) = int (m - k) \<and> \<not> fc_isTimeUp (flashTicks k f)"
    using flash by blast
  let ?z = "flashTicks m f"
  have z: "timeLeft ?z = 0" "\<not> fc_isTimeUp ?z" "sessionStarted ?z"
    "fc_currentIndex ?z < int (length (fc_words ?z))"
    using flash [of m] assms(9,12) by simp_all
  have e1: "flashTimerEffect ?z
              = (clearTimeUpTimer (?z\<lparr>effectTimer := NoTimer\<rparr>))
                  \<lparr>fc_isTimeUp := True, effectTimer := TimeUpTimer, timeUpTimerRef := True\<rparr>"
    using z by (simp add: flashTimerEffect_def Let_def)
  have z1: "timeLeft (flashTimerEffect ?z) = 0" "fc_isTimeUp (flashTimerEffect ?z)"
    "sessionStarted (flashTimerEffect ?z)"
    "fc_currentIndex (flashTimerEffect ?z) < int (length (fc_words (flashTimerEffect ?z)))"
    using z by (simp_all add: e1 clearTimeUpTimer_def)
  have e2: "flashTimerEffect (flashTimerEffect ?z)
              = clearTimeUpTimer ((flashTimerEffect ?z)\<lparr>effectTimer := NoTimer\<rparr>)"
    using z1 by (simp add: flashTimerEffect_def [of "flashTimerEffect ?z"] Let_def)
  have z2: "timeLeft (flashTimerEffect (flashTimerEffect ?z)) = 0"
    "fc_isTimeUp (flashTimerEffect (flashTimerEffect ?z))"
    "effectTimer (flashTimerEffect (flashTimerEffect ?z)) = NoTimer"
    using z1 by (simp_all add: e2 clearTimeUpTimer_def)
  have z3: "flashStep (flashTimerEffect (flashTimerEffect ?z)) TimerFired
              = flashTimerEffect (flashTimerEffect ?z)"
    using z2(3) by simp
  from q1 q2 q3 q4 q5 f0 f1 z1(1,2) z2 z3 show ?thesis by blast
qed


theorem countdown_expires_once_witness:
  "quizStarted demoQuiz \<and> \<not> quizFinished demoQuiz \<and> \<not> isAnswered demoQuiz
   \<and> hasTimeLimit demoQuiz \<and> timeLeftMs demoQuiz = timeLimitMs \<and> \<not> isTimeUp demoQuiz
   \<and> sessionStarted demoFlash \<and> fc_currentIndex demoFlash < int (length (fc_words demoFlash))
   \<and> timeLeft demoFlash = 5 \<and> \<not> fc_isTimeUp demoFlash
   \<and> timeLeftMs (quizTicks 100 demoQuiz) = 0 \<and> isTimeUp (quizTicks 100 demoQuiz)
   \<and> timeLeftMs (quizTicks 99 demoQuiz) = 100 \<and> \<not> isTimeUp (quizTicks 99 demoQuiz)
   \<and> timeLeft (flashTicks 5 demoFlash) = 0 \<and> \<not> fc_isTimeUp (flashTicks 5 demoFlash)
   \<and> fc_isTimeUp (flashTimerEffect (flashTicks 5 demoFlash))
   \<and> effectTimer (flashTimerEffect (flashTimerEffect (flashTicks 5 demoFlash))) = NoTimer"
proof -
  have h: "quizStarted demoQuiz" "\<not> quizFinished demoQuiz" "\<not> isAnswered demoQuiz"
    "hasTimeLimit demoQuiz" "timeLeftMs demoQuiz = 100 * int 100" "\<not> isTimeUp demoQuiz"
    "0 < (100::nat)"
    "sessionStarted demoFlash" "fc_currentIndex demoFlash < int (length (fc_words demoFlash))"
    "timeLeft demoFlash = int 5" "\<not> fc_isTimeUp demoFlash" "0 < (5::nat)"
    by code_simp+
  have "(99::nat) < 100" and "(5::nat) \<le> 5" by simp_all
  with countdown_expires_once [OF h]
  have "timeLeftMs (quizTicks 99 demoQuiz) = 100 * int (100 - 99)"
    "\<not> isTimeUp (quizTicks 99 demoQuiz)"
    "timeLeftMs (quizTicks 100 demoQuiz) = 0" "isTimeUp (quizTicks 100 demoQuiz)"
    "timeLeft (flashTicks 5 demoFlash) = int (5 - 5)" "\<not> fc_isTimeUp (flashTicks 5 demoFlash)"
    "fc_isTimeUp (flashTimerEffect (flashTicks 5 demoFlash))"
    "effectTimer (flashTimerEffect (flashTimerEffect (flashTicks 5 demoFlash))) = NoTimer"
    by blast+
  with h show ?thesis by (simp add: timeLimitMs_def)
qed

end
